theory Spec2Isabelle
  imports Main "HOL-Library.Word"
begin

unbundle bit_operations_syntax

section \<open>Field model (field.go, in src/logger_test.go)\<close>

text \<open>
  A Go \<^verbatim>\<open>Field\<close> is \<^verbatim>\<open>struct { Key string; Value interface{} }\<close>. The dynamic type of
  \<^verbatim>\<open>Value\<close> is what the type switch of \<^verbatim>\<open>addFields\<close> inspects, so the embedding has one
  constructor of \<open>val\<close> per dynamic type that the switch tells apart:
  \<^item> \<open>VInt\<close>, \<open>VUint\<close>: Go's native-width integers, taken as 64-bit;
  \<^item> \<open>VFloat32\<close>, \<open>VFloat64\<close>: the IEEE bit pattern (no floating-point arithmetic is done on them);
  \<^item> \<open>VTime\<close>: an instant, as nanoseconds; \<open>VDur\<close>: \<^verbatim>\<open>time.Duration\<close>, an int64;
  \<^item> \<open>VError\<close>: any non-nil value whose dynamic type implements \<^verbatim>\<open>error\<close>, with its message;
  \<^item> \<open>VBytes\<close>: \<^verbatim>\<open>[]byte\<close>; \<open>VFields\<close>: \<^verbatim>\<open>[]Field\<close> (built by \<^verbatim>\<open>Dict\<close> and \<^verbatim>\<open>Array\<close>);
  \<^item> \<open>VNil\<close>: the nil interface value (what \<^verbatim>\<open>Err(nil)\<close> stores);
  \<^item> \<open>VOther\<close>: a value of any other concrete type (one that matches no case of the switch),
    with a description of it.
\<close>

datatype field = Field (Key: string) (Value: val)
  and val =
    VString string
  | VInt "64 word"
  | VInt8 "8 word"
  | VInt16 "16 word"
  | VInt32 "32 word"
  | VInt64 "64 word"
  | VUint "64 word"
  | VUint8 "8 word"
  | VUint16 "16 word"
  | VUint32 "32 word"
  | VUint64 "64 word"
  | VFloat32 "32 word"
  | VFloat64 "64 word"
  | VBool bool
  | VTime int
  | VDur "64 word"
  | VError string
  | VBytes "8 word list"
  | VFields "field list"
  | VNil
  | VOther string

text \<open>A Go \<^verbatim>\<open>error\<close> argument: \<open>None\<close> is nil, \<open>Some m\<close> an error with message \<open>m\<close>.\<close>

type_synonym error = "string option"

text \<open>The constructors of field.go, each storing its arguments unchanged.\<close>

definition String :: "string \<Rightarrow> string \<Rightarrow> field" where
  "String key v = Field key (VString v)"

definition Bool :: "string \<Rightarrow> bool \<Rightarrow> field" where
  "Bool key v = Field key (VBool v)"

definition Int_field :: "string \<Rightarrow> 64 word \<Rightarrow> field" where
  "Int_field key v = Field key (VInt v)"

definition Int64 :: "string \<Rightarrow> 64 word \<Rightarrow> field" where
  "Int64 key v = Field key (VInt64 v)"

text \<open>
  \<^verbatim>\<open>Err\<close> and \<^verbatim>\<open>NamedErr\<close> store an \<^verbatim>\<open>error\<close> in the \<^verbatim>\<open>interface{}\<close>: a nil error becomes
  the nil interface value.
\<close>

definition error_val :: "error \<Rightarrow> val" where
  "error_val err = (case err of None \<Rightarrow> VNil | Some m \<Rightarrow> VError m)"

definition Err :: "error \<Rightarrow> field" where
  "Err err = Field ''error'' (error_val err)"

definition NamedErr :: "string \<Rightarrow> error \<Rightarrow> field" where
  "NamedErr key err = Field key (error_val err)"

definition Any :: "string \<Rightarrow> val \<Rightarrow> field" where
  "Any key v = Field key v"

definition Interface :: "string \<Rightarrow> val \<Rightarrow> field" where
  "Interface key v = Field key v"

definition RawJSON :: "string \<Rightarrow> 8 word list \<Rightarrow> field" where
  "RawJSON key b = Field key (VBytes b)"

definition Dict :: "string \<Rightarrow> field list \<Rightarrow> field" where
  "Dict key f = Field key (VFields f)"

definition Array :: "string \<Rightarrow> field list \<Rightarrow> field" where
  "Array key f = Field key (VFields f)"


section \<open>Trace id (log.go, src/unnamed/part_001)\<close>

text \<open>
  A \<^verbatim>\<open>context.Context\<close> is an opaque bag of request-scoped values; a provider may read
  anything from it.
\<close>

datatype Context = Background | WithValue Context string string

record TraceIDProvider =
  GetTraceID :: "Context \<Rightarrow> string"
  Name :: string

text \<open>
  \<^verbatim>\<open>encoding/hex\<close>: \<^verbatim>\<open>EncodeToString\<close> writes, for every byte \<open>v\<close>,
  \<^verbatim>\<open>hextable[v>>4]\<close> and then \<^verbatim>\<open>hextable[v&0x0f]\<close>.
\<close>

definition hextable :: string where
  "hextable = ''0123456789abcdef''"

fun EncodeToString :: "8 word list \<Rightarrow> string" where
  "EncodeToString [] = []"
| "EncodeToString (v # vs) =
     hextable ! unat (drop_bit 4 v) # hextable ! unat (v AND 0x0f) # EncodeToString vs"

text \<open>
  \<^verbatim>\<open>uuid.New()\<close> draws 16 bytes from the random source and stamps the version and variant
  bits of a version-4 UUID into bytes 6 and 8. The 16 bytes drawn are an input of the
  model (\<open>rnd\<close>); the random source is taken to deliver them.
\<close>

definition uuid_New :: "8 word list \<Rightarrow> 8 word list" where
  "uuid_New rnd =
     (let u = rnd[6 := (rnd ! 6 AND 0x0f) OR 0x40]
      in u[8 := (u ! 8 AND 0x3f) OR 0x80])"

text \<open>
  \<^verbatim>\<open>GetOrCreateTraceID\<close> reads the package variable \<^verbatim>\<open>globalTraceIDProvider\<close>
  (\<open>None\<close> is nil), passed here as \<open>provider\<close>.
\<close>

definition GetOrCreateTraceID ::
  "TraceIDProvider option \<Rightarrow> 8 word list \<Rightarrow> Context \<Rightarrow> string" where
  "GetOrCreateTraceID provider rnd ctx =
     (case provider of
        Some p \<Rightarrow>
          (let traceID = GetTraceID p ctx
           in if traceID \<noteq> [] then traceID else EncodeToString (uuid_New rnd))
      | None \<Rightarrow> EncodeToString (uuid_New rnd))"


section \<open>The backend event, as the adapter drives it (src/zerolog_logger.go)\<close>

text \<open>
  The levels of zerolog. Their numbers are 0 for \<^verbatim>\<open>DebugLevel\<close> up to 7 for \<^verbatim>\<open>Disabled\<close>,
  and -1 for \<^verbatim>\<open>TraceLevel\<close>; the package only ever names the first five.
\<close>

datatype Level =
    DebugLevel | InfoLevel | WarnLevel | ErrorLevel | FatalLevel
  | PanicLevel | NoLevel | Disabled | TraceLevel

text \<open>
  The adapter builds a \<^verbatim>\<open>*zerolog.Event\<close> by a chain of method calls and hands it over with
  \<^verbatim>\<open>Msg\<close>. zerolog itself is not part of the repository, so an event is modelled as what the
  adapter hands to it: the level it was opened at, the logger it was opened on, and the
  method calls made on it, in order. \<open>entry\<close> has one constructor per \<^verbatim>\<open>Event\<close> method the
  adapter calls, holding the arguments of the call. \<^verbatim>\<open>Err\<close> takes no key;
  \<^verbatim>\<open>Array\<close> is only ever called with the empty array \<^verbatim>\<open>zerolog.Arr()\<close>.
\<close>

datatype entry =
    EvStr string string
  | EvInt string "64 word"
  | EvInt8 string "8 word"
  | EvInt16 string "16 word"
  | EvInt32 string "32 word"
  | EvInt64 string "64 word"
  | EvUint string "64 word"
  | EvUint8 string "8 word"
  | EvUint16 string "16 word"
  | EvUint32 string "32 word"
  | EvUint64 string "64 word"
  | EvFloat32 string "32 word"
  | EvFloat64 string "64 word"
  | EvBool string bool
  | EvTime string int
  | EvDur string "64 word"
  | EvErr string
  | EvRawJSON string "8 word list"
  | EvArray string "val list"
  | EvInterface string val

text \<open>
  Modelled from the spec: \<^verbatim>\<open>zerolog.ErrorFieldName\<close>, the key under which \<^verbatim>\<open>Event.Err\<close>
  writes, is a variable of the zerolog package, which is not under src/ (the repository
  never assigns it); the spec's list of rendered field names gives \<^verbatim>\<open>error\<close>.
\<close>

definition ErrorFieldName :: string where
  "ErrorFieldName = ''error''"

text \<open>The key an entry is written under.\<close>

fun entry_key :: "entry \<Rightarrow> string" where
  "entry_key (EvStr k v) = k"
| "entry_key (EvInt k v) = k"
| "entry_key (EvInt8 k v) = k"
| "entry_key (EvInt16 k v) = k"
| "entry_key (EvInt32 k v) = k"
| "entry_key (EvInt64 k v) = k"
| "entry_key (EvUint k v) = k"
| "entry_key (EvUint8 k v) = k"
| "entry_key (EvUint16 k v) = k"
| "entry_key (EvUint32 k v) = k"
| "entry_key (EvUint64 k v) = k"
| "entry_key (EvFloat32 k v) = k"
| "entry_key (EvFloat64 k v) = k"
| "entry_key (EvBool k v) = k"
| "entry_key (EvTime k v) = k"
| "entry_key (EvDur k v) = k"
| "entry_key (EvErr v) = ErrorFieldName"
| "entry_key (EvRawJSON k v) = k"
| "entry_key (EvArray k v) = k"
| "entry_key (EvInterface k v) = k"

text \<open>
  The value an entry carries, as a value of the field model; the array of an \<^verbatim>\<open>Array\<close>
  call is not a value of the field model.
\<close>

fun entry_val :: "entry \<Rightarrow> val option" where
  "entry_val (EvStr k v) = Some (VString v)"
| "entry_val (EvInt k v) = Some (VInt v)"
| "entry_val (EvInt8 k v) = Some (VInt8 v)"
| "entry_val (EvInt16 k v) = Some (VInt16 v)"
| "entry_val (EvInt32 k v) = Some (VInt32 v)"
| "entry_val (EvInt64 k v) = Some (VInt64 v)"
| "entry_val (EvUint k v) = Some (VUint v)"
| "entry_val (EvUint8 k v) = Some (VUint8 v)"
| "entry_val (EvUint16 k v) = Some (VUint16 v)"
| "entry_val (EvUint32 k v) = Some (VUint32 v)"
| "entry_val (EvUint64 k v) = Some (VUint64 v)"
| "entry_val (EvFloat32 k v) = Some (VFloat32 v)"
| "entry_val (EvFloat64 k v) = Some (VFloat64 v)"
| "entry_val (EvBool k v) = Some (VBool v)"
| "entry_val (EvTime k v) = Some (VTime v)"
| "entry_val (EvDur k v) = Some (VDur v)"
| "entry_val (EvErr v) = Some (VError v)"
| "entry_val (EvRawJSON k v) = Some (VBytes v)"
| "entry_val (EvArray k v) = None"
| "entry_val (EvInterface k v) = Some v"

text \<open>
  \<open>LoggerPtr\<close> is the \<^verbatim>\<open>*zerolog.Logger\<close> an adapter writes to: the package's
  \<^verbatim>\<open>&globalLogger\<close>, or a logger of the caller's own.
\<close>

datatype LoggerPtr = GlobalLoggerPtr | OtherLoggerPtr nat

record Event =
  ev_logger :: LoggerPtr
  ev_level :: Level
  ev_entries :: "entry list"

definition put :: "Event \<Rightarrow> entry \<Rightarrow> Event" where
  "put event e = event\<lparr>ev_entries := ev_entries event @ [e]\<rparr>"

record ZerologLogger =
  logger :: LoggerPtr
  enableCaller :: bool

definition NewZerologLogger :: "LoggerPtr \<Rightarrow> ZerologLogger" where
  "NewZerologLogger lg = \<lparr>logger = lg, enableCaller = True\<rparr>"

text \<open>\<^verbatim>\<open>l.logger.Debug()\<close>, \<^verbatim>\<open>l.logger.Info()\<close>, ...: a new event at the given level.\<close>

definition newEvent :: "ZerologLogger \<Rightarrow> Level \<Rightarrow> Event" where
  "newEvent l lvl = \<lparr>ev_logger = logger l, ev_level = lvl, ev_entries = []\<rparr>"

text \<open>
  The body of the loop of \<^verbatim>\<open>addFields\<close>: the type switch on \<^verbatim>\<open>field.Value\<close>, case by
  case in the order of the source. The nil interface and every type the switch does not
  name reach \<^verbatim>\<open>default\<close>.
\<close>

fun addField :: "Event \<Rightarrow> field \<Rightarrow> Event" where
  "addField event (Field key (VString v)) = put event (EvStr key v)"
| "addField event (Field key (VInt v)) = put event (EvInt key v)"
| "addField event (Field key (VInt8 v)) = put event (EvInt8 key v)"
| "addField event (Field key (VInt16 v)) = put event (EvInt16 key v)"
| "addField event (Field key (VInt32 v)) = put event (EvInt32 key v)"
| "addField event (Field key (VInt64 v)) = put event (EvInt64 key v)"
| "addField event (Field key (VUint v)) = put event (EvUint key v)"
| "addField event (Field key (VUint8 v)) = put event (EvUint8 key v)"
| "addField event (Field key (VUint16 v)) = put event (EvUint16 key v)"
| "addField event (Field key (VUint32 v)) = put event (EvUint32 key v)"
| "addField event (Field key (VUint64 v)) = put event (EvUint64 key v)"
| "addField event (Field key (VFloat32 v)) = put event (EvFloat32 key v)"
| "addField event (Field key (VFloat64 v)) = put event (EvFloat64 key v)"
| "addField event (Field key (VBool v)) = put event (EvBool key v)"
| "addField event (Field key (VTime v)) = put event (EvTime key v)"
| "addField event (Field key (VDur v)) = put event (EvDur key v)"
| "addField event (Field key (VError v)) = put event (EvErr v)"
| "addField event (Field key (VBytes v)) = put event (EvRawJSON key v)"
| "addField event (Field key (VFields v)) =
     (if length v > 0 then put event (EvArray key []) else event)"
| "addField event (Field key VNil) = put event (EvInterface key VNil)"
| "addField event (Field key (VOther d)) = put event (EvInterface key (VOther d))"

fun addFields :: "Event \<Rightarrow> field list \<Rightarrow> Event" where
  "addFields event [] = event"
| "addFields event (f # fs) = addFields (addField event f) fs"


text \<open>
  A call of one of the eight methods of the \<^verbatim>\<open>Logger\<close> interface, with its arguments.
  \<^verbatim>\<open>costMs\<close> is an int64.
\<close>

datatype Call =
    CDebug Context string string "field list"
  | CInfo Context string string "field list"
  | CWarn Context string string "field list"
  | CError Context string string error "field list"
  | CErrorWithCode Context string string string error "field list"
  | CFatal Context string string error "field list"
  | CInfoWithRequest Context string string string "64 word" "field list"
  | CErrorWithRequest Context string string string error "64 word" "field list"

text \<open>
  What a call does to the world outside the package variables, in the order it happens:
  \<^item> \<open>Msg event message\<close>: \<^verbatim>\<open>event.Msg(message)\<close>, the event is handed to the backend;
  \<^item> \<open>Exit code\<close>: \<^verbatim>\<open>os.Exit(code)\<close>;
  \<^item> \<open>MkdirAll dir\<close>: \<^verbatim>\<open>os.MkdirAll(dir, 0755)\<close>;
  \<^item> \<open>Delegated n call\<close>: the call is passed to the caller's own \<^verbatim>\<open>Logger\<close> implementation
    number \<open>n\<close>, whose code is not part of the package.
\<close>

datatype effect =
    Msg Event string
  | Exit int
  | MkdirAll string
  | Delegated nat Call

text \<open>
  What a method of the adapter reads from its surroundings: the string \<^verbatim>\<open>getCaller()\<close>
  computes from the call stack, the 16 bytes \<^verbatim>\<open>uuid.New()\<close> draws, and the package
  variable \<^verbatim>\<open>globalTraceIDProvider\<close>.
\<close>

record Ambient =
  amb_caller :: string
  amb_rnd :: "8 word list"
  amb_provider :: "TraceIDProvider option"

definition ZerologLogger_Debug ::
  "ZerologLogger \<Rightarrow> Ambient \<Rightarrow> Context \<Rightarrow> string \<Rightarrow> string \<Rightarrow> field list \<Rightarrow> effect list" where
  "ZerologLogger_Debug l a ctx module message fs =
     (let event = newEvent l DebugLevel;
          event = (if enableCaller l then put event (EvStr ''caller'' (amb_caller a)) else event);
          event = put event (EvStr ''trace_id'' (GetOrCreateTraceID (amb_provider a) (amb_rnd a) ctx));
          event = put event (EvStr ''module'' module);
          event = addFields event fs
      in [Msg event message])"

definition ZerologLogger_Info ::
  "ZerologLogger \<Rightarrow> Ambient \<Rightarrow> Context \<Rightarrow> string \<Rightarrow> string \<Rightarrow> field list \<Rightarrow> effect list" where
  "ZerologLogger_Info l a ctx module message fs =
     (let event = newEvent l InfoLevel;
          event = (if enableCaller l then put event (EvStr ''caller'' (amb_caller a)) else event);
          event = put event (EvStr ''trace_id'' (GetOrCreateTraceID (amb_provider a) (amb_rnd a) ctx));
          event = put event (EvStr ''module'' module);
          event = addFields event fs
      in [Msg event message])"

definition ZerologLogger_Warn ::
  "ZerologLogger \<Rightarrow> Ambient \<Rightarrow> Context \<Rightarrow> string \<Rightarrow> string \<Rightarrow> field list \<Rightarrow> effect list" where
  "ZerologLogger_Warn l a ctx module message fs =
     (let event = newEvent l WarnLevel;
          event = (if enableCaller l then put event (EvStr ''caller'' (amb_caller a)) else event);
          event = put event (EvStr ''trace_id'' (GetOrCreateTraceID (amb_provider a) (amb_rnd a) ctx));
          event = put event (EvStr ''module'' module);
          event = addFields event fs
      in [Msg event message])"

definition ZerologLogger_Error ::
  "ZerologLogger \<Rightarrow> Ambient \<Rightarrow> Context \<Rightarrow> string \<Rightarrow> string \<Rightarrow> error \<Rightarrow> field list \<Rightarrow> effect list" where
  "ZerologLogger_Error l a ctx module message err fs =
     (let event = newEvent l ErrorLevel;
          event = (case err of Some m \<Rightarrow> put event (EvErr m) | None \<Rightarrow> event);
          event = (if enableCaller l then put event (EvStr ''caller'' (amb_caller a)) else event);
          event = put event (EvStr ''trace_id'' (GetOrCreateTraceID (amb_provider a) (amb_rnd a) ctx));
          event = put event (EvStr ''module'' module);
          event = addFields event fs
      in [Msg event message])"

definition ZerologLogger_ErrorWithCode ::
  "ZerologLogger \<Rightarrow> Ambient \<Rightarrow> Context \<Rightarrow> string \<Rightarrow> string \<Rightarrow> string \<Rightarrow> error \<Rightarrow> field list
     \<Rightarrow> effect list" where
  "ZerologLogger_ErrorWithCode l a ctx module message errorCode err fs =
     (let event = newEvent l ErrorLevel;
          event = (case err of Some m \<Rightarrow> put event (EvErr m) | None \<Rightarrow> event);
          event = (if enableCaller l then put event (EvStr ''caller'' (amb_caller a)) else event);
          event = put event (EvStr ''error_code'' errorCode);
          event = put event (EvStr ''trace_id'' (GetOrCreateTraceID (amb_provider a) (amb_rnd a) ctx));
          event = put event (EvStr ''module'' module);
          event = addFields event fs
      in [Msg event message])"

definition ZerologLogger_Fatal ::
  "ZerologLogger \<Rightarrow> Ambient \<Rightarrow> Context \<Rightarrow> string \<Rightarrow> string \<Rightarrow> error \<Rightarrow> field list \<Rightarrow> effect list" where
  "ZerologLogger_Fatal l a ctx module message err fs =
     (let event = newEvent l FatalLevel;
          event = (case err of Some m \<Rightarrow> put event (EvErr m) | None \<Rightarrow> event);
          event = (if enableCaller l then put event (EvStr ''caller'' (amb_caller a)) else event);
          event = put event (EvStr ''trace_id'' (GetOrCreateTraceID (amb_provider a) (amb_rnd a) ctx));
          event = put event (EvStr ''module'' module);
          event = addFields event fs
      in [Msg event message, Exit 1])"

definition ZerologLogger_InfoWithRequest ::
  "ZerologLogger \<Rightarrow> Ambient \<Rightarrow> Context \<Rightarrow> string \<Rightarrow> string \<Rightarrow> string \<Rightarrow> 64 word \<Rightarrow> field list
     \<Rightarrow> effect list" where
  "ZerologLogger_InfoWithRequest l a ctx module message requestID costMs fs =
     (let event = newEvent l InfoLevel;
          event = (if requestID \<noteq> [] then put event (EvStr ''request_id'' requestID) else event);
          event = (if 0 <s costMs then put event (EvInt64 ''cost_ms'' costMs) else event);
          event = (if enableCaller l then put event (EvStr ''caller'' (amb_caller a)) else event);
          event = put event (EvStr ''trace_id'' (GetOrCreateTraceID (amb_provider a) (amb_rnd a) ctx));
          event = put event (EvStr ''module'' module);
          event = addFields event fs
      in [Msg event message])"

definition ZerologLogger_ErrorWithRequest ::
  "ZerologLogger \<Rightarrow> Ambient \<Rightarrow> Context \<Rightarrow> string \<Rightarrow> string \<Rightarrow> string \<Rightarrow> error \<Rightarrow> 64 word
     \<Rightarrow> field list \<Rightarrow> effect list" where
  "ZerologLogger_ErrorWithRequest l a ctx module message requestID err costMs fs =
     (let event = newEvent l ErrorLevel;
          event = (case err of Some m \<Rightarrow> put event (EvErr m) | None \<Rightarrow> event);
          event = (if requestID \<noteq> [] then put event (EvStr ''request_id'' requestID) else event);
          event = (if 0 <s costMs then put event (EvInt64 ''cost_ms'' costMs) else event);
          event = (if enableCaller l then put event (EvStr ''caller'' (amb_caller a)) else event);
          event = put event (EvStr ''trace_id'' (GetOrCreateTraceID (amb_provider a) (amb_rnd a) ctx));
          event = put event (EvStr ''module'' module);
          event = addFields event fs
      in [Msg event message])"

text \<open>Dynamic dispatch of an interface call to the adapter's method.\<close>

fun ZerologLogger_call :: "ZerologLogger \<Rightarrow> Ambient \<Rightarrow> Call \<Rightarrow> effect list" where
  "ZerologLogger_call l a (CDebug ctx module message fs) =
     ZerologLogger_Debug l a ctx module message fs"
| "ZerologLogger_call l a (CInfo ctx module message fs) =
     ZerologLogger_Info l a ctx module message fs"
| "ZerologLogger_call l a (CWarn ctx module message fs) =
     ZerologLogger_Warn l a ctx module message fs"
| "ZerologLogger_call l a (CError ctx module message err fs) =
     ZerologLogger_Error l a ctx module message err fs"
| "ZerologLogger_call l a (CErrorWithCode ctx module message errorCode err fs) =
     ZerologLogger_ErrorWithCode l a ctx module message errorCode err fs"
| "ZerologLogger_call l a (CFatal ctx module message err fs) =
     ZerologLogger_Fatal l a ctx module message err fs"
| "ZerologLogger_call l a (CInfoWithRequest ctx module message requestID costMs fs) =
     ZerologLogger_InfoWithRequest l a ctx module message requestID costMs fs"
| "ZerologLogger_call l a (CErrorWithRequest ctx module message requestID err costMs fs) =
     ZerologLogger_ErrorWithRequest l a ctx module message requestID err costMs fs"


section \<open>Configuration and the package variables (log.go, src/unnamed/part_001)\<close>

record LogConfig =
  ServiceName :: string
  Env :: string
  LogLevel :: string
  LogDir :: string
  MaxSize :: int
  MaxBackups :: int
  MaxAge :: int
  Compress :: bool
  EnableDailyRoll :: bool
  EnableConsole :: bool
  ConsoleJSONFormat :: bool

definition DefaultConfig :: "string \<Rightarrow> LogConfig" where
  "DefaultConfig name =
     \<lparr>ServiceName = name, Env = ''dev'', LogLevel = ''INFO'', LogDir = ''./logs'',
      MaxSize = 100, MaxBackups = 180, MaxAge = 180, Compress = True,
      EnableDailyRoll = True, EnableConsole = True, ConsoleJSONFormat = False\<rparr>"

text \<open>
  The writers the initialization builds. \<open>Lumberjack dir file size backups age compress\<close> is
  the \<^verbatim>\<open>lumberjack.Logger\<close> whose \<^verbatim>\<open>Filename\<close> is \<^verbatim>\<open>filepath.Join(dir, file)\<close>;
  \<open>ConsoleWriter\<close> is the \<^verbatim>\<open>zerolog.ConsoleWriter\<close> on standard output.
\<close>

datatype Writer =
    Lumberjack string string int int int bool
  | Stdout
  | ConsoleWriter

text \<open>
  A \<^verbatim>\<open>zerolog.Logger\<close> as the initialization builds it: its writers, its level and the
  fields of its context (\<^verbatim>\<open>With().Timestamp().Str(...)\<close>).
\<close>

datatype CtxField = CtxTimestamp | CtxStr string string

record ZLogger =
  zl_writers :: "Writer list"
  zl_level :: Level
  zl_context :: "CtxField list"

text \<open>
  A value of the interface type \<^verbatim>\<open>Logger\<close>: the adapter, or an implementation of the
  caller's own, known only by its identity. \<open>None\<close> is the nil interface.
\<close>

datatype Logger = Zerolog ZerologLogger | Custom nat

text \<open>
  The package variables of log.go, the two variables of the zerolog package that the
  initialization assigns (\<^verbatim>\<open>SetGlobalLevel\<close>, \<^verbatim>\<open>TimeFieldFormat\<close>), and the effects of the
  process so far, oldest first. \<open>onceInit\<close> is the done flag of the \<^verbatim>\<open>sync.Once\<close>.
\<close>

record State =
  globalLogger :: ZLogger
  onceInit :: bool
  serviceName :: string
  envName :: string
  hostName :: string
  globalTraceIDProvider :: "TraceIDProvider option"
  globalLoggerImpl :: "Logger option"
  zerolog_GlobalLevel :: Level
  zerolog_TimeFieldFormat :: string
  effects :: "effect list"

definition RegisterTraceIDProvider :: "TraceIDProvider option \<Rightarrow> State \<Rightarrow> State" where
  "RegisterTraceIDProvider p s = s\<lparr>globalTraceIDProvider := p\<rparr>"

definition GetTraceIDProvider :: "State \<Rightarrow> TraceIDProvider option" where
  "GetTraceIDProvider s = globalTraceIDProvider s"

definition SetLogger :: "Logger option \<Rightarrow> State \<Rightarrow> State" where
  "SetLogger lg s = s\<lparr>globalLoggerImpl := lg\<rparr>"

definition GetLogger :: "State \<Rightarrow> Logger option" where
  "GetLogger s = globalLoggerImpl s"

definition GetServiceName :: "State \<Rightarrow> string" where
  "GetServiceName s = serviceName s"

definition GetEnvName :: "State \<Rightarrow> string" where
  "GetEnvName s = envName s"


section \<open>Parsing the level (log.go, src/unnamed/part_001)\<close>

text \<open>
  \<^verbatim>\<open>strings.ToUpper\<close>: a string of ASCII bytes only (all below \<^verbatim>\<open>utf8.RuneSelf\<close>, 0x80) is
  returned as it is when it has no byte in \<^verbatim>\<open>a..z\<close>, and otherwise with \<^verbatim>\<open>'a' - 'A'\<close>
  subtracted from each such byte. Any other string is mapped rune by rune through the
  Unicode tables of the Go library, which are not part of the repository: that mapping is
  the parameter \<open>unicodeUpper\<close>.
\<close>

definition isLower :: "char \<Rightarrow> bool" where
  "isLower c = (97 \<le> (of_char c :: nat) \<and> (of_char c :: nat) \<le> 122)"

definition upper_byte :: "char \<Rightarrow> char" where
  "upper_byte c = (if isLower c then char_of ((of_char c :: nat) - 32) else c)"

definition isASCII :: "string \<Rightarrow> bool" where
  "isASCII s = list_all (\<lambda>c. (of_char c :: nat) < 128) s"

definition ToUpper :: "(string \<Rightarrow> string) \<Rightarrow> string \<Rightarrow> string" where
  "ToUpper unicodeUpper s =
     (if isASCII s then (if \<not> list_ex isLower s then s else map upper_byte s)
      else unicodeUpper s)"

text \<open>
  \<^verbatim>\<open>parseLevel\<close> returns a level and an error; on an unknown name the level returned
  beside the error is \<^verbatim>\<open>zerolog.InfoLevel\<close>.
\<close>

definition parseLevel :: "(string \<Rightarrow> string) \<Rightarrow> string \<Rightarrow> Level \<times> error" where
  "parseLevel unicodeUpper levelStr =
     (let u = ToUpper unicodeUpper levelStr
      in if u = ''DEBUG'' then (DebugLevel, None)
         else if u = ''INFO'' then (InfoLevel, None)
         else if u = ''WARN'' \<or> u = ''WARNING'' then (WarnLevel, None)
         else if u = ''ERROR'' then (ErrorLevel, None)
         else if u = ''FATAL'' then (FatalLevel, None)
         else (InfoLevel, Some (''unknown log level: '' @ levelStr)))"


section \<open>One-time initialization (log.go, src/unnamed/part_001)\<close>

text \<open>\<^verbatim>\<open>createLogFileWriter\<close> creates the directory and returns the rotating writer.\<close>

definition createLogFileWriter :: "LogConfig \<Rightarrow> State \<Rightarrow> Writer \<times> State" where
  "createLogFileWriter config s =
     (Lumberjack (LogDir config) ''app.log'' (MaxSize config) (MaxBackups config)
        (MaxAge config) (Compress config),
      s\<lparr>effects := effects s @ [MkdirAll (LogDir config)]\<rparr>)"

definition createConsoleWriter :: "LogConfig \<Rightarrow> Writer" where
  "createConsoleWriter config = (if ConsoleJSONFormat config then Stdout else ConsoleWriter)"

definition RFC3339Nano :: string where
  "RFC3339Nano = ''2006-01-02T15:04:05.999999999Z07:00''"

text \<open>
  \<^verbatim>\<open>InitLoggerWithConfig\<close>. \<^verbatim>\<open>onceInit.Do\<close> runs its function only while the flag is
  unset and sets it, however the function returns. \<open>hostname\<close> is what \<^verbatim>\<open>os.Hostname()\<close>
  returns (\<open>None\<close> when it fails). The result is \<^verbatim>\<open>initErr\<close> and the state after the call.
  The configuration is a value (the pointer is taken to be non-nil).
\<close>

definition InitLoggerWithConfig ::
  "(string \<Rightarrow> string) \<Rightarrow> LogConfig \<Rightarrow> string option \<Rightarrow> State \<Rightarrow> error \<times> State" where
  "InitLoggerWithConfig unicodeUpper config hostname s =
     (if onceInit s then (None, s)
      else
        let s = s\<lparr>onceInit := True\<rparr>;
            s = s\<lparr>serviceName := ServiceName config\<rparr>;
            s = s\<lparr>envName := Env config\<rparr>;
            s = s\<lparr>hostName := (case hostname of Some h \<Rightarrow> h | None \<Rightarrow> ''unknown'')\<rparr>;
            (level, err) = parseLevel unicodeUpper (LogLevel config)
        in if err \<noteq> None then (Some (''invalid log level: '' @ LogLevel config), s)
           else
             let s = s\<lparr>zerolog_GlobalLevel := level\<rparr>;
                 s = s\<lparr>zerolog_TimeFieldFormat := RFC3339Nano\<rparr>;
                 (logFile, s) = createLogFileWriter config s;
                 writers = [logFile];
                 writers = (if EnableConsole config
                            then writers @ [createConsoleWriter config] else writers);
                 s = s\<lparr>globalLogger :=
                        \<lparr>zl_writers = writers, zl_level = level,
                         zl_context = [CtxTimestamp, CtxStr ''service'' (serviceName s),
                                       CtxStr ''env'' (Env config), CtxStr ''host'' (hostName s)]\<rparr>\<rparr>;
                 s = s\<lparr>globalLoggerImpl := Some (Zerolog (NewZerologLogger GlobalLoggerPtr))\<rparr>;
                 s = s\<lparr>effects := effects s @
                        [Msg \<lparr>ev_logger = GlobalLoggerPtr, ev_level = InfoLevel,
                              ev_entries = [EvStr ''service'' (serviceName s),
                                            EvStr ''env'' (Env config),
                                            EvStr ''level'' (LogLevel config),
                                            EvStr ''dir'' (LogDir config)]\<rparr> []]\<rparr>
             in (None, s))"


section \<open>The package-level logging functions (log.go, src/unnamed/part_001)\<close>

definition getLogger :: "State \<Rightarrow> Logger" where
  "getLogger s =
     (case globalLoggerImpl s of
        None \<Rightarrow> Zerolog (NewZerologLogger GlobalLoggerPtr)
      | Some lg \<Rightarrow> lg)"

text \<open>
  A call through the interface: the adapter's method, or the caller's own implementation.
  The code of such an implementation is not part of the package; the call is recorded as
  passed to it, and it is taken not to assign the package variables.
\<close>

definition Logger_call :: "Logger \<Rightarrow> Ambient \<Rightarrow> Call \<Rightarrow> effect list" where
  "Logger_call lg a call =
     (case lg of Zerolog l \<Rightarrow> ZerologLogger_call l a call | Custom n \<Rightarrow> [Delegated n call])"

text \<open>After \<^verbatim>\<open>os.Exit\<close> the process runs no more code.\<close>

fun isExit :: "effect \<Rightarrow> bool" where
  "isExit (Exit code) = True"
| "isExit e = False"

definition exited :: "State \<Rightarrow> bool" where
  "exited s = list_ex isExit (effects s)"

text \<open>
  \<^verbatim>\<open>getLogger().M(...)\<close> for a method \<open>M\<close>; \<open>caller\<close> and \<open>rnd\<close> are what the adapter would
  read from the call stack and from the random source during this call.
\<close>

definition logCall :: "string \<Rightarrow> 8 word list \<Rightarrow> Call \<Rightarrow> State \<Rightarrow> State" where
  "logCall caller rnd call s =
     (if exited s then s
      else s\<lparr>effects := effects s @
             Logger_call (getLogger s)
               \<lparr>amb_caller = caller, amb_rnd = rnd, amb_provider = globalTraceIDProvider s\<rparr>
               call\<rparr>)"

definition Debug ::
  "string \<Rightarrow> 8 word list \<Rightarrow> Context \<Rightarrow> string \<Rightarrow> string \<Rightarrow> field list \<Rightarrow> State \<Rightarrow> State" where
  "Debug caller rnd ctx module message fs = logCall caller rnd (CDebug ctx module message fs)"

definition Info ::
  "string \<Rightarrow> 8 word list \<Rightarrow> Context \<Rightarrow> string \<Rightarrow> string \<Rightarrow> field list \<Rightarrow> State \<Rightarrow> State" where
  "Info caller rnd ctx module message fs = logCall caller rnd (CInfo ctx module message fs)"

definition Warn ::
  "string \<Rightarrow> 8 word list \<Rightarrow> Context \<Rightarrow> string \<Rightarrow> string \<Rightarrow> field list \<Rightarrow> State \<Rightarrow> State" where
  "Warn caller rnd ctx module message fs = logCall caller rnd (CWarn ctx module message fs)"

definition Error ::
  "string \<Rightarrow> 8 word list \<Rightarrow> Context \<Rightarrow> string \<Rightarrow> string \<Rightarrow> error \<Rightarrow> field list \<Rightarrow> State
     \<Rightarrow> State" where
  "Error caller rnd ctx module message err fs =
     logCall caller rnd (CError ctx module message err fs)"

definition ErrorWithCode ::
  "string \<Rightarrow> 8 word list \<Rightarrow> Context \<Rightarrow> string \<Rightarrow> string \<Rightarrow> string \<Rightarrow> error \<Rightarrow> field list
     \<Rightarrow> State \<Rightarrow> State" where
  "ErrorWithCode caller rnd ctx module message errorCode err fs =
     logCall caller rnd (CErrorWithCode ctx module message errorCode err fs)"

definition Fatal ::
  "string \<Rightarrow> 8 word list \<Rightarrow> Context \<Rightarrow> string \<Rightarrow> string \<Rightarrow> error \<Rightarrow> field list \<Rightarrow> State
     \<Rightarrow> State" where
  "Fatal caller rnd ctx module message err fs =
     logCall caller rnd (CFatal ctx module message err fs)"

definition InfoWithRequest ::
  "string \<Rightarrow> 8 word list \<Rightarrow> Context \<Rightarrow> string \<Rightarrow> string \<Rightarrow> string \<Rightarrow> 64 word \<Rightarrow> field list
     \<Rightarrow> State \<Rightarrow> State" where
  "InfoWithRequest caller rnd ctx module message requestID costMs fs =
     logCall caller rnd (CInfoWithRequest ctx module message requestID costMs fs)"

definition ErrorWithRequest ::
  "string \<Rightarrow> 8 word list \<Rightarrow> Context \<Rightarrow> string \<Rightarrow> string \<Rightarrow> string \<Rightarrow> error \<Rightarrow> 64 word
     \<Rightarrow> field list \<Rightarrow> State \<Rightarrow> State" where
  "ErrorWithRequest caller rnd ctx module message requestID err costMs fs =
     logCall caller rnd (CErrorWithRequest ctx module message requestID err costMs fs)"

text \<open>A sequence of package-level logging calls, each with what it reads from its surroundings.\<close>

fun logCalls :: "(string \<times> 8 word list \<times> Call) list \<Rightarrow> State \<Rightarrow> State" where
  "logCalls [] s = s"
| "logCalls ((caller, rnd, call) # cs) s = logCalls cs (logCall caller rnd call s)"


section \<open>Observations used to state the properties\<close>

text \<open>The entries handed to the backend by a list of effects, in order.\<close>

fun handed :: "effect list \<Rightarrow> entry list" where
  "handed [] = []"
| "handed (Msg event message # es) = ev_entries event @ handed es"
| "handed (Exit code # es) = handed es"
| "handed (MkdirAll dir # es) = handed es"
| "handed (Delegated n call # es) = handed es"

text \<open>The entries one field contributes: what \<^verbatim>\<open>addFields\<close> puts on an empty event for it.\<close>

definition fieldEntries :: "field \<Rightarrow> entry list" where
  "fieldEntries f =
     ev_entries (addField \<lparr>ev_logger = GlobalLoggerPtr, ev_level = DebugLevel, ev_entries = []\<rparr> f)"

text \<open>The fields passed in a call, and the same call with other fields.\<close>

fun callFields :: "Call \<Rightarrow> field list" where
  "callFields (CDebug ctx module message fs) = fs"
| "callFields (CInfo ctx module message fs) = fs"
| "callFields (CWarn ctx module message fs) = fs"
| "callFields (CError ctx module message err fs) = fs"
| "callFields (CErrorWithCode ctx module message errorCode err fs) = fs"
| "callFields (CFatal ctx module message err fs) = fs"
| "callFields (CInfoWithRequest ctx module message requestID costMs fs) = fs"
| "callFields (CErrorWithRequest ctx module message requestID err costMs fs) = fs"

fun withFields :: "field list \<Rightarrow> Call \<Rightarrow> Call" where
  "withFields fs' (CDebug ctx module message fs) = CDebug ctx module message fs'"
| "withFields fs' (CInfo ctx module message fs) = CInfo ctx module message fs'"
| "withFields fs' (CWarn ctx module message fs) = CWarn ctx module message fs'"
| "withFields fs' (CError ctx module message err fs) = CError ctx module message err fs'"
| "withFields fs' (CErrorWithCode ctx module message errorCode err fs) =
     CErrorWithCode ctx module message errorCode err fs'"
| "withFields fs' (CFatal ctx module message err fs) = CFatal ctx module message err fs'"
| "withFields fs' (CInfoWithRequest ctx module message requestID costMs fs) =
     CInfoWithRequest ctx module message requestID costMs fs'"
| "withFields fs' (CErrorWithRequest ctx module message requestID err costMs fs) =
     CErrorWithRequest ctx module message requestID err costMs fs'"

text \<open>
  The level names of the \<^verbatim>\<open>case\<close> labels of \<^verbatim>\<open>parseLevel\<close>, and what it is for a level
  string to be one of them once upper-cased.
\<close>

definition levelNames :: "string list" where
  "levelNames = [''DEBUG'', ''INFO'', ''WARN'', ''WARNING'', ''ERROR'', ''FATAL'']"

text \<open>
  The five level names that the specification lists for the minimum severity
  (``one of DEBUG/INFO/WARN/ERROR/FATAL, case-insensitive on input'').
\<close>

definition specLevelNames :: "string list" where
  "specLevelNames = [''DEBUG'', ''INFO'', ''WARN'', ''ERROR'', ''FATAL'']"

definition recognized :: "(string \<Rightarrow> string) \<Rightarrow> string \<Rightarrow> bool" where
  "recognized unicodeUpper levelStr = (ToUpper unicodeUpper levelStr \<in> set levelNames)"

text \<open>
  Comparison of two strings of bytes without regard to the case of the ASCII letters: the
  two are equal once every byte in \<^verbatim>\<open>A..Z\<close> is replaced by its lower-case letter.
\<close>

definition lower_byte :: "char \<Rightarrow> char" where
  "lower_byte c =
     (if 65 \<le> (of_char c :: nat) \<and> (of_char c :: nat) \<le> 90
      then char_of ((of_char c :: nat) + 32) else c)"

definition equalFold :: "string \<Rightarrow> string \<Rightarrow> bool" where
  "equalFold s t = (map lower_byte s = map lower_byte t)"

text \<open>
  The configuration \<open>config\<close> is the active one in a state: the names, the level, the
  backend logger and the default adapter are the ones the initialization derives from it.
\<close>

definition configActive :: "(string \<Rightarrow> string) \<Rightarrow> LogConfig \<Rightarrow> State \<Rightarrow> bool" where
  "configActive unicodeUpper config s =
     (serviceName s = ServiceName config
      \<and> envName s = Env config
      \<and> snd (parseLevel unicodeUpper (LogLevel config)) = None
      \<and> zerolog_GlobalLevel s = fst (parseLevel unicodeUpper (LogLevel config))
      \<and> zerolog_TimeFieldFormat s = RFC3339Nano
      \<and> zl_level (globalLogger s) = fst (parseLevel unicodeUpper (LogLevel config))
      \<and> zl_writers (globalLogger s) =
          Lumberjack (LogDir config) ''app.log'' (MaxSize config) (MaxBackups config)
            (MaxAge config) (Compress config)
          # (if EnableConsole config
             then [if ConsoleJSONFormat config then Stdout else ConsoleWriter] else [])
      \<and> zl_context (globalLogger s) =
          [CtxTimestamp, CtxStr ''service'' (ServiceName config), CtxStr ''env'' (Env config),
           CtxStr ''host'' (hostName s)]
      \<and> globalLoggerImpl s = Some (Zerolog (NewZerologLogger GlobalLoggerPtr)))"

text \<open>
  The state of a process that has not touched the package yet: every package variable
  has its zero value, so the level of \<^verbatim>\<open>globalLogger\<close> is \<^verbatim>\<open>DebugLevel\<close>, the zero of its
  type. zerolog's own initialization sets its global level to \<^verbatim>\<open>TraceLevel\<close>; its time
  format is left open as \<open>fmt\<close>.
\<close>

definition initState :: "string \<Rightarrow> State" where
  "initState fmt =
     \<lparr>globalLogger = \<lparr>zl_writers = [], zl_level = DebugLevel, zl_context = []\<rparr>,
      onceInit = False, serviceName = [], envName = [], hostName = [],
      globalTraceIDProvider = None, globalLoggerImpl = None,
      zerolog_GlobalLevel = TraceLevel, zerolog_TimeFieldFormat = fmt, effects = []\<rparr>"


text \<open>
  A sequence of calls of \<^verbatim>\<open>InitLoggerWithConfig\<close>, each with its configuration and with what
  \<^verbatim>\<open>os.Hostname()\<close> would return to it; the state after the last one.
\<close>

fun initCalls :: "(string \<Rightarrow> string) \<Rightarrow> (LogConfig \<times> string option) list \<Rightarrow> State \<Rightarrow> State" where
  "initCalls unicodeUpper [] s = s"
| "initCalls unicodeUpper ((config, hostname) # cs) s =
     initCalls unicodeUpper cs (snd (InitLoggerWithConfig unicodeUpper config hostname s))"


section \<open>Properties of the trace id\<close>

lemma hi_nibble_bound: "unat (drop_bit 4 (v :: 8 word)) < 16"
proof -
  have "unat v < 256"
    using unsigned_less [of v, where ?'a = nat] by simp
  moreover have "unat (drop_bit 4 v) = unat v div 16"
    by (simp add: drop_bit_eq_div unat_div)
  ultimately show ?thesis by simp
qed

lemma lo_nibble_bound: "unat ((v :: 8 word) AND 0x0f) < 16"
proof -
  have "v AND 0x0f \<le> 0x0f"
    by (rule word_and_le1)
  then have "unat (v AND 0x0f) \<le> unat (0x0f :: 8 word)"
    by (simp only: word_le_nat_alt)
  also have "unat (0x0f :: 8 word) = 15"
    by simp
  finally show ?thesis by simp
qed

lemma hextable_nth: "n < 16 \<Longrightarrow> hextable ! n \<in> set hextable"
proof -
  assume "n < 16"
  moreover have "length hextable = 16" by (simp add: hextable_def)
  ultimately show ?thesis by simp
qed

lemma EncodeToString_length: "length (EncodeToString bs) = 2 * length bs"
  by (induction bs) simp_all

lemma EncodeToString_alphabet: "set (EncodeToString bs) \<subseteq> set hextable"
proof (induction bs)
  case Nil
  show ?case by simp
next
  case (Cons v vs)
  have "hextable ! unat (drop_bit 4 v) \<in> set hextable"
    by (rule hextable_nth [OF hi_nibble_bound])
  moreover have "hextable ! unat (v AND 0x0f) \<in> set hextable"
    by (rule hextable_nth [OF lo_nibble_bound])
  ultimately show ?case using Cons.IH by simp
qed

lemma uuid_New_length: "length (uuid_New rnd) = length rnd"
  by (simp add: uuid_New_def Let_def)

text \<open>
  Claim C2. \<^verbatim>\<open>GetOrCreateTraceID\<close> returns the registered provider's id unchanged whenever
  a provider is registered and gives a non-empty id for the context; in every other case
  (no provider, or an empty id) it returns the hex rendering of the fresh UUID, which is
  32 characters over \<open>0-9a-f\<close>; the result is never the empty string. The 16 bytes are
  those of Go's \<^verbatim>\<open>[16]byte\<close>.
\<close>

theorem GetOrCreateTraceID_verbatim_or_fresh:
  assumes "length rnd = 16"
  shows "(\<forall>p. provider = Some p \<and> GetTraceID p ctx \<noteq> [] \<longrightarrow>
            GetOrCreateTraceID provider rnd ctx = GetTraceID p ctx)
       \<and> (\<not> (\<exists>p. provider = Some p \<and> GetTraceID p ctx \<noteq> []) \<longrightarrow>
            GetOrCreateTraceID provider rnd ctx = EncodeToString (uuid_New rnd)
          \<and> length (GetOrCreateTraceID provider rnd ctx) = 32
          \<and> set (GetOrCreateTraceID provider rnd ctx) \<subseteq> set ''0123456789abcdef'')
       \<and> GetOrCreateTraceID provider rnd ctx \<noteq> []"
proof -
  let ?fresh = "EncodeToString (uuid_New rnd)"
  have len: "length ?fresh = 32"
    using assms by (simp add: EncodeToString_length uuid_New_length)
  have alpha: "set ?fresh \<subseteq> set ''0123456789abcdef''"
    using EncodeToString_alphabet [of "uuid_New rnd"] by (simp only: hextable_def)
  have ne: "?fresh \<noteq> []"
    using len by auto
  show ?thesis
  proof (cases provider)
    case None
    then show ?thesis
      using len alpha ne by (simp add: GetOrCreateTraceID_def)
  next
    case (Some p)
    show ?thesis
    proof (cases "GetTraceID p ctx = []")
      case True
      with Some show ?thesis
        using len alpha ne by (simp add: GetOrCreateTraceID_def)
    next
      case False
      with Some show ?thesis
        by (simp add: GetOrCreateTraceID_def)
    qed
  qed
qed

theorem GetOrCreateTraceID_verbatim_or_fresh_witness:
  "GetOrCreateTraceID
     (Some \<lparr>GetTraceID = (\<lambda>c. if c = Background then [] else ''4bf92f35''), Name = ''otel''\<rparr>)
     (replicate 16 0) (WithValue Background ''k'' ''v'') = ''4bf92f35''
   \<and> length (GetOrCreateTraceID
       (Some \<lparr>GetTraceID = (\<lambda>c. if c = Background then [] else ''4bf92f35''), Name = ''otel''\<rparr>)
       (replicate 16 0) Background) = 32
   \<and> length (GetOrCreateTraceID None (replicate 16 0) Background) = 32"
  using GetOrCreateTraceID_verbatim_or_fresh
      [of "replicate 16 0"
          "Some \<lparr>GetTraceID = (\<lambda>c. if c = Background then [] else ''4bf92f35''), Name = ''otel''\<rparr>"
          "WithValue Background ''k'' ''v''"]
    GetOrCreateTraceID_verbatim_or_fresh
      [of "replicate 16 0"
          "Some \<lparr>GetTraceID = (\<lambda>c. if c = Background then [] else ''4bf92f35''), Name = ''otel''\<rparr>"
          "Background"]
    GetOrCreateTraceID_verbatim_or_fresh [of "replicate 16 0" None Background]
  by auto

section \<open>Properties of the field dispatch\<close>

text \<open>\<^verbatim>\<open>addFields\<close> only appends entries: the ones each field contributes, in the order of the fields.\<close>

lemma addField_eq:
  "addField event f = event\<lparr>ev_entries := ev_entries event @ fieldEntries f\<rparr>"
proof (cases f)
  case (Field key v)
  then show ?thesis
    by (cases v) (simp_all add: fieldEntries_def put_def)
qed

lemma addFields_eq:
  "addFields event fs = event\<lparr>ev_entries := ev_entries event @ concat (map fieldEntries fs)\<rparr>"
proof (induction fs arbitrary: event)
  case Nil
  show ?case by simp
next
  case (Cons f fs)
  show ?case by (simp add: Cons.IH addField_eq)
qed

lemma fieldEntries_one:
  "Value f \<noteq> VFields [] \<Longrightarrow> \<exists>e. fieldEntries f = [e]"
proof (cases f)
  case (Field key v)
  assume "Value f \<noteq> VFields []"
  with Field show ?thesis
    by (cases v) (simp_all add: fieldEntries_def put_def)
qed

lemma fieldEntries_empty_coll: "fieldEntries (Field key (VFields [])) = []"
  by (simp add: fieldEntries_def)

lemma fieldEntries_length:
  "length (fieldEntries f) = (if Value f = VFields [] then 0 else 1)"
proof (cases "Value f = VFields []")
  case True
  then have "f = Field (Key f) (VFields [])" by (cases f) simp
  then have "fieldEntries f = []" using fieldEntries_empty_coll by metis
  with True show ?thesis by simp
next
  case False
  then obtain e where "fieldEntries f = [e]" using fieldEntries_one by blast
  with False show ?thesis by simp
qed

lemma fieldEntries_keys:
  assumes "Value f \<noteq> VFields []" and "\<forall>m. Value f = VError m \<longrightarrow> Key f = ErrorFieldName"
  shows "map entry_key (fieldEntries f) = [Key f]"
proof (cases f)
  case (Field key v)
  with assms show ?thesis
    by (cases v) (simp_all add: fieldEntries_def put_def)
qed

lemma concat_fieldEntries_length:
  "length (concat (map fieldEntries fs)) = length (filter (\<lambda>f. Value f \<noteq> VFields []) fs)"
  by (induction fs) (simp_all add: fieldEntries_length)

lemma addFields_append: "addFields event (fs @ gs) = addFields (addFields event fs) gs"
  by (induction fs arbitrary: event) simp_all

lemma addFields_split: "addFields event (fs @ f # gs) = addFields (addField (addFields event fs) f) gs"
  by (simp add: addFields_append)

lemma fieldEntries_val:
  assumes "\<forall>v. Value f \<noteq> VFields v"
  shows "\<exists>e. fieldEntries f = [e] \<and> entry_val e = Some (Value f)"
proof (cases f)
  case (Field key v)
  with assms show ?thesis
    by (cases v) (simp_all add: fieldEntries_def put_def)
qed

lemma fieldEntries_own:
  assumes "Value f \<noteq> VFields []" and "\<forall>m. Value f = VError m \<longrightarrow> Key f = ErrorFieldName"
  shows "\<exists>e. fieldEntries f = [e] \<and> entry_key e = Key f
            \<and> ((\<forall>v. Value f \<noteq> VFields v) \<longrightarrow> entry_val e = Some (Value f))"
proof (cases f)
  case (Field key v)
  with assms show ?thesis
    by (cases v) (simp_all add: fieldEntries_def put_def)
qed

lemma handed_call:
  "handed (ZerologLogger_call l a c) =
     handed (ZerologLogger_call l a (withFields [] c)) @ concat (map fieldEntries (callFields c))"
  by (cases c)
     (simp_all add: ZerologLogger_Debug_def ZerologLogger_Info_def ZerologLogger_Warn_def
        ZerologLogger_Error_def ZerologLogger_ErrorWithCode_def ZerologLogger_Fatal_def
        ZerologLogger_InfoWithRequest_def ZerologLogger_ErrorWithRequest_def
        addFields_eq Let_def put_def newEvent_def split: option.splits)

text \<open>
  Claim C1, as stated, fails: a field built by \<^verbatim>\<open>Dict\<close> or \<^verbatim>\<open>Array\<close> with no elements is a
  field of a defined kind, and \<^verbatim>\<open>addFields\<close> makes no call on the event for it (the guard
  \<^verbatim>\<open>if len(v) > 0\<close>), so nothing of the field reaches the backend.
\<close>

theorem addFields_empty_collection_counterexample:
  "ev_entries (addFields (newEvent (NewZerologLogger GlobalLoggerPtr) InfoLevel) [Dict ''user'' []]) = []
   \<and> ev_entries (addFields (newEvent (NewZerologLogger GlobalLoggerPtr) InfoLevel) [Array ''tags'' []]) = []"
  by (simp add: Dict_def Array_def newEvent_def)

text \<open>
  Claim C1, amended. \<^verbatim>\<open>addFields\<close> has no failing path and dispatches every field of
  the list on its own, in order: wherever a field \<open>f\<close> stands in the list (after any
  fields \<open>fs\<close>, before any fields \<open>gs\<close>), if its value is not an empty field collection
  or sequence, exactly one call is made on the event for it, after the calls for \<open>fs\<close> and
  before those for \<open>gs\<close>; unless the field is a collection or sequence, the call carries the
  field's value. For the nil interface and for a value of a type the switch does not
  name, the call is \<^verbatim>\<open>Interface\<close> with the field's key and value (the opaque fallback). A
  collection or sequence with no elements is skipped. So a list of fields adds as many
  entries as it has fields that are not empty collections.
\<close>

theorem addFields_renders:
  "(Value f \<noteq> VFields [] \<longrightarrow>
      (\<exists>e. addFields event (fs @ f # gs) = addFields (put (addFields event fs) e) gs
          \<and> ((\<forall>v. Value f \<noteq> VFields v) \<longrightarrow> entry_val e = Some (Value f))))
   \<and> ((Value f = VNil \<or> (\<exists>d. Value f = VOther d)) \<longrightarrow>
        addFields event (fs @ f # gs) =
          addFields (put (addFields event fs) (EvInterface (Key f) (Value f))) gs)
   \<and> (Value f = VFields [] \<longrightarrow> addFields event (fs @ f # gs) = addFields (addFields event fs) gs)
   \<and> addFields event [] = event
   \<and> length (ev_entries (addFields event fs)) =
        length (ev_entries event) + length (filter (\<lambda>f. Value f \<noteq> VFields []) fs)"
proof -
  let ?ev = "addFields event fs"
  have one: "Value f \<noteq> VFields [] \<longrightarrow>
      (\<exists>e. addFields event (fs @ f # gs) = addFields (put ?ev e) gs
          \<and> ((\<forall>v. Value f \<noteq> VFields v) \<longrightarrow> entry_val e = Some (Value f)))"
  proof
    assume ne: "Value f \<noteq> VFields []"
    show "\<exists>e. addFields event (fs @ f # gs) = addFields (put ?ev e) gs
          \<and> ((\<forall>v. Value f \<noteq> VFields v) \<longrightarrow> entry_val e = Some (Value f))"
    proof (cases "\<forall>v. Value f \<noteq> VFields v")
      case True
      then obtain e where e: "fieldEntries f = [e]" "entry_val e = Some (Value f)"
        using fieldEntries_val by blast
      then have "addField ?ev f = put ?ev e"
        by (simp add: addField_eq [of ?ev f] put_def)
      with e show ?thesis
        by (auto simp: addFields_split)
    next
      case False
      from ne obtain e where e: "fieldEntries f = [e]"
        using fieldEntries_one by blast
      then have "addField ?ev f = put ?ev e"
        by (simp add: addField_eq [of ?ev f] put_def)
      with False show ?thesis
        by (auto simp: addFields_split)
    qed
  qed
  have opaque: "(Value f = VNil \<or> (\<exists>d. Value f = VOther d)) \<longrightarrow>
        addFields event (fs @ f # gs) =
          addFields (put ?ev (EvInterface (Key f) (Value f))) gs"
    by (cases f) (auto simp: addFields_split)
  have dropped: "Value f = VFields [] \<longrightarrow> addFields event (fs @ f # gs) = addFields ?ev gs"
    by (cases f) (auto simp: addFields_split)
  have nil: "addFields event [] = event"
    by simp
  have count: "length (ev_entries (addFields event fs)) =
        length (ev_entries event) + length (filter (\<lambda>f. Value f \<noteq> VFields []) fs)"
    by (simp add: addFields_eq concat_fieldEntries_length)
  from one opaque dropped nil count show ?thesis by blast
qed

theorem addFields_renders_witness:
  "(\<exists>e. addFields (newEvent (NewZerologLogger GlobalLoggerPtr) InfoLevel)
           ([Dict ''d'' []] @ String ''user'' ''bob'' # [NamedErr ''db_error'' (Some ''timeout'')])
        = addFields (put (addFields (newEvent (NewZerologLogger GlobalLoggerPtr) InfoLevel) [Dict ''d'' []]) e)
            [NamedErr ''db_error'' (Some ''timeout'')]
        \<and> entry_val e = Some (VString ''bob''))
   \<and> addFields (newEvent (NewZerologLogger GlobalLoggerPtr) InfoLevel)
        ([String ''user'' ''bob''] @ Any ''obj'' (VOther ''struct{}'') # [])
        = addFields (put (addFields (newEvent (NewZerologLogger GlobalLoggerPtr) InfoLevel) [String ''user'' ''bob''])
            (EvInterface ''obj'' (VOther ''struct{}''))) []
   \<and> addFields (newEvent (NewZerologLogger GlobalLoggerPtr) InfoLevel)
        ([String ''user'' ''bob''] @ Dict ''d'' [] # [])
        = addFields (addFields (newEvent (NewZerologLogger GlobalLoggerPtr) InfoLevel) [String ''user'' ''bob'']) []"
proof -
  let ?E = "newEvent (NewZerologLogger GlobalLoggerPtr) InfoLevel"
  have v1: "Value (String ''user'' ''bob'') \<noteq> VFields []" "\<forall>v. Value (String ''user'' ''bob'') \<noteq> VFields v"
    "Value (String ''user'' ''bob'') = VString ''bob''"
    by (simp_all add: String_def)
  have v2: "Value (Any ''obj'' (VOther ''struct{}'')) = VOther ''struct{}''"
    "Key (Any ''obj'' (VOther ''struct{}'')) = ''obj''"
    by (simp_all add: Any_def)
  have v3: "Value (Dict ''d'' []) = VFields []"
    by (simp add: Dict_def)
  note t1 = addFields_renders [of "String ''user'' ''bob''" ?E "[Dict ''d'' []]"
      "[NamedErr ''db_error'' (Some ''timeout'')]"]
  note t2 = addFields_renders [of "Any ''obj'' (VOther ''struct{}'')" ?E "[String ''user'' ''bob'']" "[]"]
  note t3 = addFields_renders [of "Dict ''d'' []" ?E "[String ''user'' ''bob'']" "[]"]
  have a: "\<exists>e. addFields ?E ([Dict ''d'' []] @ String ''user'' ''bob'' # [NamedErr ''db_error'' (Some ''timeout'')])
        = addFields (put (addFields ?E [Dict ''d'' []]) e) [NamedErr ''db_error'' (Some ''timeout'')]
        \<and> entry_val e = Some (VString ''bob'')"
    using t1 v1 by metis
  have b: "addFields ?E ([String ''user'' ''bob''] @ Any ''obj'' (VOther ''struct{}'') # [])
        = addFields (put (addFields ?E [String ''user'' ''bob'']) (EvInterface ''obj'' (VOther ''struct{}''))) []"
    using t2 v2 by metis
  have c: "addFields ?E ([String ''user'' ''bob''] @ Dict ''d'' [] # [])
        = addFields (addFields ?E [String ''user'' ''bob'']) []"
    using t3 v3 by metis
  from a b c show ?thesis by blast
qed

text \<open>
  Claim C7, as stated, fails at two kinds of field. A field built by \<^verbatim>\<open>NamedErr\<close> holds an
  error, and for an error \<^verbatim>\<open>addFields\<close> calls \<^verbatim>\<open>event.Err(v)\<close>, which takes no key: the
  caller's key \<^verbatim>\<open>db_error\<close> is not among the keys handed to the backend. A field
  collection with no elements is skipped, so its key is not among them either.
\<close>

theorem fields_under_own_key_counterexample:
  "''db_error'' \<notin> set (map entry_key (handed
      (ZerologLogger_Info (NewZerologLogger GlobalLoggerPtr)
         \<lparr>amb_caller = ''main.go:10'', amb_rnd = replicate 16 0, amb_provider = None\<rparr>
         Background ''db'' ''query failed'' [NamedErr ''db_error'' (Some ''timeout'')])))
   \<and> ''user'' \<notin> set (map entry_key (handed
      (ZerologLogger_Info (NewZerologLogger GlobalLoggerPtr)
         \<lparr>amb_caller = ''main.go:10'', amb_rnd = replicate 16 0, amb_provider = None\<rparr>
         Background ''db'' ''query failed'' [Dict ''user'' []])))"
  by code_simp

text \<open>
  Claim C7, amended. In every call of the eight methods of the adapter, the entries
  handed to the backend are the adapter's own entries (those of the same call made with
  no fields) followed by one block of entries per supplied field, in the order supplied.
  For every supplied field that is not an empty field collection or sequence and is not
  an error under a key other than \<^verbatim>\<open>error\<close>, whatever the other fields of the call are,
  the block is one entry under the field's own key, and it carries the field's value
  unless the field is a collection or sequence; so every such field appears under its
  own key. Nothing is said of an error-valued field under another key.
\<close>

theorem fields_under_own_key:
  "(\<exists>bs. length bs = length (callFields c)
        \<and> handed (ZerologLogger_call l a c) =
            handed (ZerologLogger_call l a (withFields [] c)) @ concat bs
        \<and> (\<forall>i < length (callFields c).
              Value (callFields c ! i) \<noteq> VFields []
              \<and> (\<forall>m. Value (callFields c ! i) = VError m \<longrightarrow> Key (callFields c ! i) = ErrorFieldName)
              \<longrightarrow> (\<exists>e. bs ! i = [e] \<and> entry_key e = Key (callFields c ! i)
                     \<and> ((\<forall>v. Value (callFields c ! i) \<noteq> VFields v) \<longrightarrow>
                          entry_val e = Some (Value (callFields c ! i))))))
   \<and> (\<forall>f \<in> set (callFields c).
         Value f \<noteq> VFields [] \<and> (\<forall>m. Value f = VError m \<longrightarrow> Key f = ErrorFieldName)
         \<longrightarrow> Key f \<in> set (map entry_key (handed (ZerologLogger_call l a c))))"
proof -
  let ?fs = "callFields c"
  let ?bs = "map fieldEntries ?fs"
  have len: "length ?bs = length ?fs" by simp
  have dec: "handed (ZerologLogger_call l a c) =
            handed (ZerologLogger_call l a (withFields [] c)) @ concat ?bs"
    by (rule handed_call)
  have blk: "\<forall>i < length ?fs.
              Value (?fs ! i) \<noteq> VFields []
              \<and> (\<forall>m. Value (?fs ! i) = VError m \<longrightarrow> Key (?fs ! i) = ErrorFieldName)
              \<longrightarrow> (\<exists>e. ?bs ! i = [e] \<and> entry_key e = Key (?fs ! i)
                     \<and> ((\<forall>v. Value (?fs ! i) \<noteq> VFields v) \<longrightarrow>
                          entry_val e = Some (Value (?fs ! i))))"
    using fieldEntries_own by simp
  have first: "\<exists>bs. length bs = length ?fs
        \<and> handed (ZerologLogger_call l a c) =
            handed (ZerologLogger_call l a (withFields [] c)) @ concat bs
        \<and> (\<forall>i < length ?fs.
              Value (?fs ! i) \<noteq> VFields []
              \<and> (\<forall>m. Value (?fs ! i) = VError m \<longrightarrow> Key (?fs ! i) = ErrorFieldName)
              \<longrightarrow> (\<exists>e. bs ! i = [e] \<and> entry_key e = Key (?fs ! i)
                     \<and> ((\<forall>v. Value (?fs ! i) \<noteq> VFields v) \<longrightarrow>
                          entry_val e = Some (Value (?fs ! i)))))"
    using len dec blk by blast
  have mem: "Key f \<in> set (map entry_key (handed (ZerologLogger_call l a c)))"
    if "f \<in> set ?fs" and "Value f \<noteq> VFields []"
      and "\<forall>m. Value f = VError m \<longrightarrow> Key f = ErrorFieldName" for f
  proof -
    have "map entry_key (fieldEntries f) = [Key f]"
      using that(2,3) by (rule fieldEntries_keys)
    then have "Key f \<in> set (map entry_key (fieldEntries f))" by simp
    then have "Key f \<in> set (map entry_key (concat ?bs))"
      using that(1) by auto
    then show ?thesis by (simp add: dec)
  qed
  from first mem show ?thesis by blast
qed

theorem fields_under_own_key_witness:
  "''user'' \<in> set (map entry_key (handed
      (ZerologLogger_call (NewZerologLogger GlobalLoggerPtr)
         \<lparr>amb_caller = ''main.go:10'', amb_rnd = replicate 16 0, amb_provider = None\<rparr>
         (CInfo Background ''db'' ''done''
            [NamedErr ''db_error'' (Some ''timeout''), String ''user'' ''bob'', Dict ''d'' []]))))
   \<and> (\<exists>bs e. handed
          (ZerologLogger_call (NewZerologLogger GlobalLoggerPtr)
             \<lparr>amb_caller = ''main.go:10'', amb_rnd = replicate 16 0, amb_provider = None\<rparr>
             (CInfo Background ''db'' ''done''
                [NamedErr ''db_error'' (Some ''timeout''), String ''user'' ''bob'', Dict ''d'' []]))
        = handed
          (ZerologLogger_call (NewZerologLogger GlobalLoggerPtr)
             \<lparr>amb_caller = ''main.go:10'', amb_rnd = replicate 16 0, amb_provider = None\<rparr>
             (CInfo Background ''db'' ''done'' [])) @ concat bs
        \<and> length bs = 3 \<and> bs ! 1 = [e] \<and> entry_key e = ''user'' \<and> entry_val e = Some (VString ''bob''))"
proof -
  let ?c = "CInfo Background ''db'' ''done''
            [NamedErr ''db_error'' (Some ''timeout''), String ''user'' ''bob'', Dict ''d'' []]"
  let ?l = "NewZerologLogger GlobalLoggerPtr"
  let ?a = "\<lparr>amb_caller = ''main.go:10'', amb_rnd = replicate 16 0, amb_provider = None\<rparr>"
  have m: "String ''user'' ''bob'' \<in> set (callFields ?c)"
    by simp
  have g: "Value (String ''user'' ''bob'') \<noteq> VFields []
           \<and> (\<forall>m. Value (String ''user'' ''bob'') = VError m \<longrightarrow> Key (String ''user'' ''bob'') = ErrorFieldName)"
    by (simp add: String_def)
  have k: "Key (String ''user'' ''bob'') = ''user''" "Value (String ''user'' ''bob'') = VString ''bob''"
    by (simp_all add: String_def)
  have nc: "\<forall>v. Value (String ''user'' ''bob'') \<noteq> VFields v"
    by (simp add: String_def)
  have at: "callFields ?c ! 1 = String ''user'' ''bob''" "length (callFields ?c) = 3"
    "withFields [] ?c = CInfo Background ''db'' ''done'' []"
    by simp_all
  note t = fields_under_own_key [of ?c ?l ?a]
  from t m g have "Key (String ''user'' ''bob'') \<in> set (map entry_key (handed (ZerologLogger_call ?l ?a ?c)))"
    by blast
  then have first: "''user'' \<in> set (map entry_key (handed (ZerologLogger_call ?l ?a ?c)))"
    by (simp only: k)
  from t obtain bs where bs: "length bs = length (callFields ?c)"
      "handed (ZerologLogger_call ?l ?a ?c) = handed (ZerologLogger_call ?l ?a (withFields [] ?c)) @ concat bs"
      "\<forall>i < length (callFields ?c).
         Value (callFields ?c ! i) \<noteq> VFields []
         \<and> (\<forall>m. Value (callFields ?c ! i) = VError m \<longrightarrow> Key (callFields ?c ! i) = ErrorFieldName)
         \<longrightarrow> (\<exists>e. bs ! i = [e] \<and> entry_key e = Key (callFields ?c ! i)
                \<and> ((\<forall>v. Value (callFields ?c ! i) \<noteq> VFields v) \<longrightarrow>
                     entry_val e = Some (Value (callFields ?c ! i))))"
    by blast
  have "1 < length (callFields ?c)"
    by simp
  with bs(3) have "Value (callFields ?c ! 1) \<noteq> VFields []
         \<and> (\<forall>m. Value (callFields ?c ! 1) = VError m \<longrightarrow> Key (callFields ?c ! 1) = ErrorFieldName)
         \<longrightarrow> (\<exists>e. bs ! 1 = [e] \<and> entry_key e = Key (callFields ?c ! 1)
                \<and> ((\<forall>v. Value (callFields ?c ! 1) \<noteq> VFields v) \<longrightarrow>
                     entry_val e = Some (Value (callFields ?c ! 1))))"
    by blast
  then have "\<exists>e. bs ! 1 = [e] \<and> entry_key e = Key (String ''user'' ''bob'')
                \<and> entry_val e = Some (Value (String ''user'' ''bob''))"
    using g nc by (simp only: at(1)) blast
  then obtain e where e: "bs ! 1 = [e]" "entry_key e = ''user''" "entry_val e = Some (VString ''bob'')"
    by (auto simp only: k)
  have second: "\<exists>bs e. handed (ZerologLogger_call ?l ?a ?c)
        = handed (ZerologLogger_call ?l ?a (CInfo Background ''db'' ''done'' [])) @ concat bs
        \<and> length bs = 3 \<and> bs ! 1 = [e] \<and> entry_key e = ''user'' \<and> entry_val e = Some (VString ''bob'')"
    using bs(1,2) e by (simp only: at) blast
  from first second show ?thesis by blast
qed

section \<open>Properties of the registration slot and of termination\<close>

text \<open>
  Claim C5. After \<^verbatim>\<open>SetLogger(L)\<close>, \<^verbatim>\<open>GetLogger()\<close> returns \<open>L\<close>, at once and also after any
  sequence \<open>cs\<close> of package-level logging calls; a later registration replaces an earlier
  one, whatever was logged in between.
\<close>

theorem SetLogger_GetLogger:
  "GetLogger (SetLogger L s) = L
   \<and> GetLogger (logCalls cs (SetLogger L s)) = L
   \<and> GetLogger (SetLogger L (SetLogger L' s)) = L
   \<and> GetLogger (SetLogger L (logCalls cs (SetLogger L' s))) = L"
proof -
  have step: "globalLoggerImpl (logCall caller rnd call t) = globalLoggerImpl t" for caller rnd call t
    by (simp add: logCall_def)
  have run: "globalLoggerImpl (logCalls cs t) = globalLoggerImpl t" for t
    by (induction cs arbitrary: t) (auto simp: step)
  show ?thesis
    by (simp add: GetLogger_def SetLogger_def run)
qed

text \<open>
  Claim C6. \<^verbatim>\<open>Fatal\<close> of the adapter hands the event to the backend (\<^verbatim>\<open>Msg\<close>, at the fatal
  level, with the module and the message of the call) and then exits with a status that
  is not zero; these are its only two effects, in this order. None of the seven other
  methods exits.
\<close>

theorem Fatal_exits_after_handing:
  "(\<exists>event code. ZerologLogger_Fatal l a ctx module message err fs = [Msg event message, Exit code]
       \<and> code \<noteq> 0
       \<and> ev_level event = FatalLevel \<and> EvStr ''module'' module \<in> set (ev_entries event))
   \<and> \<not> list_ex isExit (ZerologLogger_Debug l a ctx module message fs)
   \<and> \<not> list_ex isExit (ZerologLogger_Info l a ctx module message fs)
   \<and> \<not> list_ex isExit (ZerologLogger_Warn l a ctx module message fs)
   \<and> \<not> list_ex isExit (ZerologLogger_Error l a ctx module message err fs)
   \<and> \<not> list_ex isExit (ZerologLogger_ErrorWithCode l a ctx module message errorCode err fs)
   \<and> \<not> list_ex isExit (ZerologLogger_InfoWithRequest l a ctx module message requestID costMs fs)
   \<and> \<not> list_ex isExit (ZerologLogger_ErrorWithRequest l a ctx module message requestID err costMs fs)"
  by (simp add: ZerologLogger_Debug_def ZerologLogger_Info_def ZerologLogger_Warn_def
        ZerologLogger_Error_def ZerologLogger_ErrorWithCode_def ZerologLogger_Fatal_def
        ZerologLogger_InfoWithRequest_def ZerologLogger_ErrorWithRequest_def
        addFields_eq Let_def put_def newEvent_def split: option.splits)


section \<open>Properties of the request variants\<close>

lemma own_InfoWithRequest:
  "handed (ZerologLogger_InfoWithRequest l a ctx module message requestID costMs []) =
     (if requestID \<noteq> [] then [EvStr ''request_id'' requestID] else [])
     @ (if 0 <s costMs then [EvInt64 ''cost_ms'' costMs] else [])
     @ (if enableCaller l then [EvStr ''caller'' (amb_caller a)] else [])
     @ [EvStr ''trace_id'' (GetOrCreateTraceID (amb_provider a) (amb_rnd a) ctx),
        EvStr ''module'' module]"
  by (simp add: ZerologLogger_InfoWithRequest_def Let_def put_def newEvent_def)

lemma own_ErrorWithRequest:
  "handed (ZerologLogger_ErrorWithRequest l a ctx module message requestID err costMs []) =
     (case err of Some m \<Rightarrow> [EvErr m] | None \<Rightarrow> [])
     @ (if requestID \<noteq> [] then [EvStr ''request_id'' requestID] else [])
     @ (if 0 <s costMs then [EvInt64 ''cost_ms'' costMs] else [])
     @ (if enableCaller l then [EvStr ''caller'' (amb_caller a)] else [])
     @ [EvStr ''trace_id'' (GetOrCreateTraceID (amb_provider a) (amb_rnd a) ctx),
        EvStr ''module'' module]"
  by (simp add: ZerologLogger_ErrorWithRequest_def Let_def put_def newEvent_def split: option.splits)

text \<open>
  Claim C8. For \<^verbatim>\<open>InfoWithRequest\<close> and for \<^verbatim>\<open>ErrorWithRequest\<close> of the adapter, the entries
  handed to the backend are the method's own entries (those of the call with no fields)
  followed by the entries of the supplied fields. Among the method's own entries there
  is one under \<^verbatim>\<open>cost_ms\<close> exactly when \<^verbatim>\<open>costMs > 0\<close> (as a signed 64-bit integer),
  and then it is the integer \<^verbatim>\<open>costMs\<close>; there is one under \<^verbatim>\<open>request_id\<close> exactly when
  \<^verbatim>\<open>requestID\<close> is not empty, and then it is the string \<^verbatim>\<open>requestID\<close>. In the scenario
  of the specification (\<^verbatim>\<open>"api"\<close>, \<^verbatim>\<open>"done"\<close>, \<^verbatim>\<open>"req-1"\<close>, 0) the own entries are
  \<^verbatim>\<open>request_id = "req-1"\<close>, the caller if enabled, the trace id and the module: no
  \<^verbatim>\<open>cost_ms\<close>.
\<close>

theorem request_fields_attached:
  "handed (ZerologLogger_InfoWithRequest l a ctx module message requestID costMs fs) =
     handed (ZerologLogger_InfoWithRequest l a ctx module message requestID costMs [])
     @ ev_entries (addFields (newEvent l InfoLevel) fs)
   \<and> (EvInt64 ''cost_ms'' costMs \<in> set (handed
         (ZerologLogger_InfoWithRequest l a ctx module message requestID costMs []))) = (0 <s costMs)
   \<and> (''cost_ms'' \<in> set (map entry_key (handed
         (ZerologLogger_InfoWithRequest l a ctx module message requestID costMs [])))) = (0 <s costMs)
   \<and> (EvStr ''request_id'' requestID \<in> set (handed
         (ZerologLogger_InfoWithRequest l a ctx module message requestID costMs []))) = (requestID \<noteq> [])
   \<and> (''request_id'' \<in> set (map entry_key (handed
         (ZerologLogger_InfoWithRequest l a ctx module message requestID costMs [])))) = (requestID \<noteq> [])
   \<and> handed (ZerologLogger_ErrorWithRequest l a ctx module message requestID err costMs fs) =
     handed (ZerologLogger_ErrorWithRequest l a ctx module message requestID err costMs [])
     @ ev_entries (addFields (newEvent l ErrorLevel) fs)
   \<and> (EvInt64 ''cost_ms'' costMs \<in> set (handed
         (ZerologLogger_ErrorWithRequest l a ctx module message requestID err costMs []))) = (0 <s costMs)
   \<and> (''cost_ms'' \<in> set (map entry_key (handed
         (ZerologLogger_ErrorWithRequest l a ctx module message requestID err costMs [])))) = (0 <s costMs)
   \<and> (EvStr ''request_id'' requestID \<in> set (handed
         (ZerologLogger_ErrorWithRequest l a ctx module message requestID err costMs []))) = (requestID \<noteq> [])
   \<and> (''request_id'' \<in> set (map entry_key (handed
         (ZerologLogger_ErrorWithRequest l a ctx module message requestID err costMs [])))) = (requestID \<noteq> [])
   \<and> handed (ZerologLogger_InfoWithRequest l a ctx ''api'' ''done'' ''req-1'' 0 []) =
       EvStr ''request_id'' ''req-1''
       # (if enableCaller l then [EvStr ''caller'' (amb_caller a)] else [])
       @ [EvStr ''trace_id'' (GetOrCreateTraceID (amb_provider a) (amb_rnd a) ctx),
          EvStr ''module'' ''api'']"
proof -
  have i0: "handed (ZerologLogger_InfoWithRequest l a ctx module message requestID costMs fs) =
     handed (ZerologLogger_InfoWithRequest l a ctx module message requestID costMs [])
     @ ev_entries (addFields (newEvent l InfoLevel) fs)"
    by (simp add: ZerologLogger_InfoWithRequest_def Let_def put_def newEvent_def addFields_eq)
  have e0: "handed (ZerologLogger_ErrorWithRequest l a ctx module message requestID err costMs fs) =
     handed (ZerologLogger_ErrorWithRequest l a ctx module message requestID err costMs [])
     @ ev_entries (addFields (newEvent l ErrorLevel) fs)"
    by (simp add: ZerologLogger_ErrorWithRequest_def Let_def put_def newEvent_def addFields_eq
          split: option.splits)
  have i1: "(EvInt64 ''cost_ms'' costMs \<in> set (handed
         (ZerologLogger_InfoWithRequest l a ctx module message requestID costMs []))) = (0 <s costMs)"
    by (simp add: own_InfoWithRequest)
  have i2: "(''cost_ms'' \<in> set (map entry_key (handed
         (ZerologLogger_InfoWithRequest l a ctx module message requestID costMs [])))) = (0 <s costMs)"
    by (auto simp: own_InfoWithRequest)
  have i3: "(EvStr ''request_id'' requestID \<in> set (handed
         (ZerologLogger_InfoWithRequest l a ctx module message requestID costMs []))) = (requestID \<noteq> [])"
    by (simp add: own_InfoWithRequest)
  have i4: "(''request_id'' \<in> set (map entry_key (handed
         (ZerologLogger_InfoWithRequest l a ctx module message requestID costMs [])))) = (requestID \<noteq> [])"
    by (auto simp: own_InfoWithRequest)
  have e1: "(EvInt64 ''cost_ms'' costMs \<in> set (handed
         (ZerologLogger_ErrorWithRequest l a ctx module message requestID err costMs []))) = (0 <s costMs)"
    by (simp add: own_ErrorWithRequest split: option.splits)
  have e2: "(''cost_ms'' \<in> set (map entry_key (handed
         (ZerologLogger_ErrorWithRequest l a ctx module message requestID err costMs [])))) = (0 <s costMs)"
    by (auto simp: own_ErrorWithRequest ErrorFieldName_def split: option.splits)
  have e3: "(EvStr ''request_id'' requestID \<in> set (handed
         (ZerologLogger_ErrorWithRequest l a ctx module message requestID err costMs []))) = (requestID \<noteq> [])"
    by (simp add: own_ErrorWithRequest split: option.splits)
  have e4: "(''request_id'' \<in> set (map entry_key (handed
         (ZerologLogger_ErrorWithRequest l a ctx module message requestID err costMs [])))) = (requestID \<noteq> [])"
    by (auto simp: own_ErrorWithRequest ErrorFieldName_def split: option.splits)
  have sc: "handed (ZerologLogger_InfoWithRequest l a ctx ''api'' ''done'' ''req-1'' 0 []) =
       EvStr ''request_id'' ''req-1''
       # (if enableCaller l then [EvStr ''caller'' (amb_caller a)] else [])
       @ [EvStr ''trace_id'' (GetOrCreateTraceID (amb_provider a) (amb_rnd a) ctx),
          EvStr ''module'' ''api'']"
    by (simp add: own_InfoWithRequest word_sless_alt)
  from i0 i1 i2 i3 i4 e0 e1 e2 e3 e4 sc show ?thesis by blast
qed

section \<open>Properties of the initialization\<close>

lemma Init_done: "onceInit s \<Longrightarrow> InitLoggerWithConfig U c h s = (None, s)"
  by (simp add: InitLoggerWithConfig_def)

lemma Init_sets_once: "onceInit (snd (InitLoggerWithConfig U c h s))"
  by (simp add: InitLoggerWithConfig_def createLogFileWriter_def Let_def case_prod_beta)

lemma Init_failed:
  assumes "\<not> onceInit s" and "snd (parseLevel U (LogLevel c)) \<noteq> None"
  shows "InitLoggerWithConfig U c h s =
           (Some (''invalid log level: '' @ LogLevel c),
            s\<lparr>onceInit := True, serviceName := ServiceName c, envName := Env c,
              hostName := (case h of Some n \<Rightarrow> n | None \<Rightarrow> ''unknown'')\<rparr>)"
  using assms by (simp add: InitLoggerWithConfig_def Let_def case_prod_beta)

lemma Init_ok:
  assumes "\<not> onceInit s" and "snd (parseLevel U (LogLevel c)) = None"
  shows "fst (InitLoggerWithConfig U c h s) = None"
    and "configActive U c (snd (InitLoggerWithConfig U c h s))"
    and "zerolog_GlobalLevel (snd (InitLoggerWithConfig U c h s)) = fst (parseLevel U (LogLevel c))"
  using assms
  by (simp_all add: InitLoggerWithConfig_def configActive_def createLogFileWriter_def
        createConsoleWriter_def Let_def case_prod_beta)

lemma parseLevel_recognized: "(snd (parseLevel U str) = None) = recognized U str"
  by (simp add: parseLevel_def recognized_def levelNames_def Let_def)

lemma initCalls_done: "onceInit s \<Longrightarrow> initCalls U cs s = s"
  by (induction cs arbitrary: s) (auto simp: Init_done)

lemma upper_lower_byte: "upper_byte (lower_byte c) = upper_byte c"
proof (cases "65 \<le> (of_char c :: nat) \<and> (of_char c :: nat) \<le> 90")
  case True
  define u where "u = char_of ((of_char c :: nat) + 32)"
  have ou: "(of_char u :: nat) = of_char c + 32"
    using True by (simp add: u_def)
  have low: "lower_byte c = u"
    using True by (simp add: lower_byte_def u_def)
  have rng: "97 \<le> (of_char u :: nat) \<and> (of_char u :: nat) \<le> 122"
    using True ou by arith
  then have "isLower u"
    by (simp only: isLower_def)
  then have "upper_byte u = char_of ((of_char u :: nat) - 32)"
    by (simp add: upper_byte_def)
  also have "(of_char u :: nat) - 32 = of_char c"
    using ou by arith
  finally have "upper_byte u = c"
    by simp
  moreover have "\<not> isLower c"
    using True by (simp add: isLower_def)
  then have "upper_byte c = c"
    by (simp add: upper_byte_def)
  ultimately show ?thesis
    using low by simp
next
  case False
  then have "lower_byte c = c"
    by (auto simp: lower_byte_def)
  then show ?thesis by simp
qed

lemma lower_upper_byte: "lower_byte (upper_byte c) = lower_byte c"
proof (cases "isLower c")
  case True
  then have r: "97 \<le> (of_char c :: nat) \<and> (of_char c :: nat) \<le> 122"
    by (simp only: isLower_def)
  define u where "u = char_of ((of_char c :: nat) - 32)"
  have "(of_char c :: nat) - 32 < 256"
    using r by arith
  then have ou: "(of_char u :: nat) = of_char c - 32"
    by (simp add: u_def)
  have up: "upper_byte c = u"
    using True by (simp add: upper_byte_def u_def)
  have rng: "65 \<le> (of_char u :: nat) \<and> (of_char u :: nat) \<le> 90"
    using r ou by arith
  then have "lower_byte u = char_of ((of_char u :: nat) + 32)"
    by (simp add: lower_byte_def)
  also have "(of_char u :: nat) + 32 = of_char c"
    using r ou by arith
  finally have "lower_byte u = c"
    by simp
  moreover have "\<not> (65 \<le> (of_char c :: nat) \<and> (of_char c :: nat) \<le> 90)"
    using r by arith
  then have "lower_byte c = c"
    by (auto simp: lower_byte_def)
  ultimately show ?thesis
    using up by simp
next
  case False
  then have "upper_byte c = c"
    by (simp add: upper_byte_def)
  then show ?thesis by simp
qed

lemma upper_lower_map: "map upper_byte (map lower_byte s) = map upper_byte s"
  by (induction s) (simp_all add: upper_lower_byte)

lemma lower_upper_map: "map lower_byte (map upper_byte s) = map lower_byte s"
  by (induction s) (simp_all add: lower_upper_byte)

lemma upper_no_lower: "\<not> list_ex isLower s \<Longrightarrow> map upper_byte s = s"
  by (induction s) (simp_all add: upper_byte_def)

lemma ToUpper_ascii: "isASCII s \<Longrightarrow> ToUpper U s = map upper_byte s"
  by (simp add: ToUpper_def upper_no_lower)

lemma levelNames_upper: "n \<in> set levelNames \<Longrightarrow> map upper_byte n = n"
  by (auto simp: levelNames_def upper_byte_def isLower_def)

lemma upper_eq_iff_fold:
  assumes "n \<in> set levelNames"
  shows "(map upper_byte s = n) = equalFold s n"
proof
  assume "map upper_byte s = n"
  then have "map lower_byte (map upper_byte s) = map lower_byte n" by (simp only:)
  then show "equalFold s n"
    by (simp only: equalFold_def lower_upper_map)
next
  assume "equalFold s n"
  then have "map upper_byte (map lower_byte s) = map upper_byte (map lower_byte n)"
    by (simp only: equalFold_def)
  then have "map upper_byte s = map upper_byte n"
    by (simp only: upper_lower_map)
  with assms show "map upper_byte s = n"
    by (simp add: levelNames_upper)
qed

lemma recognized_fold:
  assumes "isASCII str"
  shows "recognized U str = (\<exists>n\<in>set levelNames. equalFold str n)"
proof -
  have "recognized U str = (\<exists>n\<in>set levelNames. map upper_byte str = n)"
    using assms by (simp add: recognized_def ToUpper_ascii)
  also have "\<dots> = (\<exists>n\<in>set levelNames. equalFold str n)"
    using upper_eq_iff_fold by blast
  finally show ?thesis .
qed

lemma levelNames_spec:
  "(\<exists>n\<in>set levelNames. equalFold str n) =
     ((\<exists>n\<in>set specLevelNames. equalFold str n) \<or> equalFold str ''WARNING'')"
  by (auto simp: levelNames_def specLevelNames_def)

text \<open>
  Claim C4, as stated, fails: \<^verbatim>\<open>warning\<close> is not one of the five level names of the
  specification, however the case of its letters is read, and yet the first call of
  \<^verbatim>\<open>InitLoggerWithConfig\<close> with it returns no error and applies \<^verbatim>\<open>WarnLevel\<close>: the switch of
  \<^verbatim>\<open>parseLevel\<close> has the label \<^verbatim>\<open>"WARNING"\<close> beside \<^verbatim>\<open>"WARN"\<close>.
\<close>

theorem unrecognized_level_counterexample:
  "\<not> list_ex (equalFold ''warning'') specLevelNames
   \<and> fst (InitLoggerWithConfig (\<lambda>s. s) ((DefaultConfig ''svc'')\<lparr>LogLevel := ''warning''\<rparr>)
            (Some ''host1'') (initState [])) = None
   \<and> zerolog_GlobalLevel (snd (InitLoggerWithConfig (\<lambda>s. s) ((DefaultConfig ''svc'')\<lparr>LogLevel := ''warning''\<rparr>)
            (Some ''host1'') (initState []))) = WarnLevel"
  by code_simp

text \<open>
  Claim C4, amended. On the first invocation (the guard not yet consumed), a
  configuration whose severity string, once upper-cased by \<^verbatim>\<open>strings.ToUpper\<close>, is not one
  of the six names of the \<^verbatim>\<open>case\<close> labels (DEBUG, INFO, WARN, WARNING, ERROR, FATAL) makes
  \<^verbatim>\<open>InitLoggerWithConfig\<close> return an error; the global level, the backend logger, the
  registered \<^verbatim>\<open>Logger\<close> and the effects stay as they were, so the level \<^verbatim>\<open>InfoLevel\<close> that
  \<^verbatim>\<open>parseLevel\<close> returns beside its error is not applied. A severity string that
  upper-cases to one of the six names gives no error, and the level \<^verbatim>\<open>parseLevel\<close> returns
  for it becomes the global level and the level of the backend logger. For a severity
  string of ASCII bytes, upper-casing to one of the six names is the same as being equal,
  without regard to case, to one of them: to one of the five names of the specification
  or to WARNING. For any other string the upper-casing is that of the Unicode tables of
  the Go library (the parameter \<open>U\<close>).
\<close>

theorem unrecognized_level_fails:
  assumes "\<not> onceInit s"
  shows "(\<not> recognized U (LogLevel c) \<longrightarrow>
            fst (InitLoggerWithConfig U c h s) = Some (''invalid log level: '' @ LogLevel c)
          \<and> zerolog_GlobalLevel (snd (InitLoggerWithConfig U c h s)) = zerolog_GlobalLevel s
          \<and> globalLogger (snd (InitLoggerWithConfig U c h s)) = globalLogger s
          \<and> globalLoggerImpl (snd (InitLoggerWithConfig U c h s)) = globalLoggerImpl s
          \<and> effects (snd (InitLoggerWithConfig U c h s)) = effects s)
       \<and> (recognized U (LogLevel c) \<longrightarrow>
            fst (InitLoggerWithConfig U c h s) = None
          \<and> zerolog_GlobalLevel (snd (InitLoggerWithConfig U c h s)) = fst (parseLevel U (LogLevel c))
          \<and> zl_level (globalLogger (snd (InitLoggerWithConfig U c h s))) = fst (parseLevel U (LogLevel c)))
       \<and> (isASCII (LogLevel c) \<longrightarrow>
            recognized U (LogLevel c) = (\<exists>n\<in>set levelNames. equalFold (LogLevel c) n))
       \<and> (isASCII (LogLevel c) \<longrightarrow>
            recognized U (LogLevel c) =
              ((\<exists>n\<in>set specLevelNames. equalFold (LogLevel c) n) \<or> equalFold (LogLevel c) ''WARNING''))"
proof -
  have bad: "\<not> recognized U (LogLevel c) \<longrightarrow>
            fst (InitLoggerWithConfig U c h s) = Some (''invalid log level: '' @ LogLevel c)
          \<and> zerolog_GlobalLevel (snd (InitLoggerWithConfig U c h s)) = zerolog_GlobalLevel s
          \<and> globalLogger (snd (InitLoggerWithConfig U c h s)) = globalLogger s
          \<and> globalLoggerImpl (snd (InitLoggerWithConfig U c h s)) = globalLoggerImpl s
          \<and> effects (snd (InitLoggerWithConfig U c h s)) = effects s"
  proof
    assume "\<not> recognized U (LogLevel c)"
    then have "snd (parseLevel U (LogLevel c)) \<noteq> None"
      by (simp add: parseLevel_recognized)
    from Init_failed [OF assms this, of h] show "fst (InitLoggerWithConfig U c h s) = Some (''invalid log level: '' @ LogLevel c)
          \<and> zerolog_GlobalLevel (snd (InitLoggerWithConfig U c h s)) = zerolog_GlobalLevel s
          \<and> globalLogger (snd (InitLoggerWithConfig U c h s)) = globalLogger s
          \<and> globalLoggerImpl (snd (InitLoggerWithConfig U c h s)) = globalLoggerImpl s
          \<and> effects (snd (InitLoggerWithConfig U c h s)) = effects s"
      by simp
  qed
  have good: "recognized U (LogLevel c) \<longrightarrow>
            fst (InitLoggerWithConfig U c h s) = None
          \<and> zerolog_GlobalLevel (snd (InitLoggerWithConfig U c h s)) = fst (parseLevel U (LogLevel c))
          \<and> zl_level (globalLogger (snd (InitLoggerWithConfig U c h s))) = fst (parseLevel U (LogLevel c))"
  proof
    assume "recognized U (LogLevel c)"
    then have ok: "snd (parseLevel U (LogLevel c)) = None"
      by (simp add: parseLevel_recognized)
    from Init_ok [OF assms ok, of h] show "fst (InitLoggerWithConfig U c h s) = None
          \<and> zerolog_GlobalLevel (snd (InitLoggerWithConfig U c h s)) = fst (parseLevel U (LogLevel c))
          \<and> zl_level (globalLogger (snd (InitLoggerWithConfig U c h s))) = fst (parseLevel U (LogLevel c))"
      by (simp add: configActive_def)
  qed
  have fold: "isASCII (LogLevel c) \<longrightarrow>
            recognized U (LogLevel c) = (\<exists>n\<in>set levelNames. equalFold (LogLevel c) n)"
    using recognized_fold by blast
  have fold5: "isASCII (LogLevel c) \<longrightarrow>
            recognized U (LogLevel c) =
              ((\<exists>n\<in>set specLevelNames. equalFold (LogLevel c) n) \<or> equalFold (LogLevel c) ''WARNING'')"
    using recognized_fold [of "LogLevel c" U] by (simp only: levelNames_spec) blast
  from bad good fold fold5 show ?thesis by blast
qed

theorem unrecognized_level_fails_witness:
  "fst (InitLoggerWithConfig (\<lambda>s. s) ((DefaultConfig ''svc'')\<lparr>LogLevel := ''verbose''\<rparr>) (Some ''host1'')
          (initState [])) = Some ''invalid log level: verbose''
   \<and> zerolog_GlobalLevel (snd (InitLoggerWithConfig (\<lambda>s. s)
          ((DefaultConfig ''svc'')\<lparr>LogLevel := ''verbose''\<rparr>) (Some ''host1'') (initState []))) = TraceLevel
   \<and> fst (InitLoggerWithConfig (\<lambda>s. s) ((DefaultConfig ''svc'')\<lparr>LogLevel := ''Warning''\<rparr>) (Some ''host1'')
          (initState [])) = None
   \<and> zerolog_GlobalLevel (snd (InitLoggerWithConfig (\<lambda>s. s)
          ((DefaultConfig ''svc'')\<lparr>LogLevel := ''Warning''\<rparr>) (Some ''host1'') (initState []))) = WarnLevel
   \<and> (\<exists>n\<in>set levelNames. equalFold ''Warning'' n)
   \<and> ((\<exists>n\<in>set specLevelNames. equalFold ''Warning'' n) \<or> equalFold ''Warning'' ''WARNING'')"
proof -
  have fresh: "\<not> onceInit (initState [])"
    by (simp add: initState_def)
  have bad: "\<not> recognized (\<lambda>s. s) (LogLevel ((DefaultConfig ''svc'')\<lparr>LogLevel := ''verbose''\<rparr>))"
    by code_simp
  have good: "recognized (\<lambda>s. s) (LogLevel ((DefaultConfig ''svc'')\<lparr>LogLevel := ''Warning''\<rparr>))"
    by code_simp
  have ascii: "isASCII (LogLevel ((DefaultConfig ''svc'')\<lparr>LogLevel := ''Warning''\<rparr>))"
    by code_simp
  have lvl: "fst (parseLevel (\<lambda>s. s) (LogLevel ((DefaultConfig ''svc'')\<lparr>LogLevel := ''Warning''\<rparr>))) = WarnLevel"
    by code_simp
  have z: "zerolog_GlobalLevel (initState []) = TraceLevel"
    by (simp add: initState_def)
  show ?thesis
    using unrecognized_level_fails [OF fresh, of "\<lambda>s. s" "(DefaultConfig ''svc'')\<lparr>LogLevel := ''verbose''\<rparr>" "Some ''host1''"]
      unrecognized_level_fails [OF fresh, of "\<lambda>s. s" "(DefaultConfig ''svc'')\<lparr>LogLevel := ''Warning''\<rparr>" "Some ''host1''"]
      bad good ascii lvl z
    by simp
qed

text \<open>
  Claim C3, as stated, fails for a first configuration whose severity string is not
  recognized: the first call stores the service and environment names and returns an
  error, the second call returns success and changes nothing, and afterwards the first
  configuration is not the active one (no level applied, no \<^verbatim>\<open>Logger\<close> registered) although
  its service name is what \<^verbatim>\<open>GetServiceName\<close> returns.
\<close>

theorem second_init_counterexample:
  "fst (InitLoggerWithConfig (\<lambda>s. s) (DefaultConfig ''other'') (Some ''host1'')
          (snd (InitLoggerWithConfig (\<lambda>s. s) ((DefaultConfig ''svc'')\<lparr>LogLevel := ''VERBOSE''\<rparr>)
                  (Some ''host1'') (initState [])))) = None
   \<and> \<not> configActive (\<lambda>s. s) ((DefaultConfig ''svc'')\<lparr>LogLevel := ''VERBOSE''\<rparr>)
        (snd (InitLoggerWithConfig (\<lambda>s. s) (DefaultConfig ''other'') (Some ''host1'')
          (snd (InitLoggerWithConfig (\<lambda>s. s) ((DefaultConfig ''svc'')\<lparr>LogLevel := ''VERBOSE''\<rparr>)
                  (Some ''host1'') (initState [])))))
   \<and> GetServiceName
        (snd (InitLoggerWithConfig (\<lambda>s. s) (DefaultConfig ''other'') (Some ''host1'')
          (snd (InitLoggerWithConfig (\<lambda>s. s) ((DefaultConfig ''svc'')\<lparr>LogLevel := ''VERBOSE''\<rparr>)
                  (Some ''host1'') (initState []))))) = ''svc''
   \<and> GetLogger
        (snd (InitLoggerWithConfig (\<lambda>s. s) (DefaultConfig ''other'') (Some ''host1'')
          (snd (InitLoggerWithConfig (\<lambda>s. s) ((DefaultConfig ''svc'')\<lparr>LogLevel := ''VERBOSE''\<rparr>)
                  (Some ''host1'') (initState []))))) = None"
  by code_simp

text \<open>
  Claim C3, amended. Whatever the two configurations and the state, the second of two
  calls of \<^verbatim>\<open>InitLoggerWithConfig\<close> returns success and leaves every package variable and
  the effects exactly as the first call left them: nothing of the second configuration is
  applied. When the first call is the first of the process and the severity string of
  its configuration is recognized, the first call succeeds and its configuration is the
  active one after the second call: names, level, time format, writers, context and the
  default adapter are all those derived from it.
\<close>

theorem second_init_is_noop:
  "InitLoggerWithConfig U c2 h2 (snd (InitLoggerWithConfig U c1 h1 s)) =
     (None, snd (InitLoggerWithConfig U c1 h1 s))
   \<and> (\<not> onceInit s \<and> recognized U (LogLevel c1) \<longrightarrow>
        fst (InitLoggerWithConfig U c1 h1 s) = None
      \<and> configActive U c1 (snd (InitLoggerWithConfig U c2 h2 (snd (InitLoggerWithConfig U c1 h1 s)))))"
proof -
  have noop: "InitLoggerWithConfig U c2 h2 (snd (InitLoggerWithConfig U c1 h1 s)) =
     (None, snd (InitLoggerWithConfig U c1 h1 s))"
    by (rule Init_done [OF Init_sets_once])
  have "fst (InitLoggerWithConfig U c1 h1 s) = None
      \<and> configActive U c1 (snd (InitLoggerWithConfig U c2 h2 (snd (InitLoggerWithConfig U c1 h1 s))))"
    if fresh: "\<not> onceInit s" and rec: "recognized U (LogLevel c1)"
  proof -
    from rec have ok: "snd (parseLevel U (LogLevel c1)) = None"
      by (simp add: parseLevel_recognized)
    from Init_ok(1,2) [OF fresh ok, of h1] show ?thesis
      by (simp add: noop)
  qed
  with noop show ?thesis by blast
qed

theorem second_init_is_noop_witness:
  "InitLoggerWithConfig (\<lambda>s. s) (DefaultConfig ''other'') None
      (snd (InitLoggerWithConfig (\<lambda>s. s) ((DefaultConfig ''svc'')\<lparr>LogLevel := ''error''\<rparr>)
             (Some ''host1'') (initState []))) =
     (None, snd (InitLoggerWithConfig (\<lambda>s. s) ((DefaultConfig ''svc'')\<lparr>LogLevel := ''error''\<rparr>)
             (Some ''host1'') (initState [])))
   \<and> configActive (\<lambda>s. s) ((DefaultConfig ''svc'')\<lparr>LogLevel := ''error''\<rparr>)
        (snd (InitLoggerWithConfig (\<lambda>s. s) (DefaultConfig ''other'') None
          (snd (InitLoggerWithConfig (\<lambda>s. s) ((DefaultConfig ''svc'')\<lparr>LogLevel := ''error''\<rparr>)
             (Some ''host1'') (initState [])))))"
proof -
  have fresh: "\<not> onceInit (initState [])"
    by (simp add: initState_def)
  have good: "recognized (\<lambda>s. s) (LogLevel ((DefaultConfig ''svc'')\<lparr>LogLevel := ''error''\<rparr>))"
    by code_simp
  note t = second_init_is_noop [of "\<lambda>s. s" "DefaultConfig ''other''" None
        "(DefaultConfig ''svc'')\<lparr>LogLevel := ''error''\<rparr>" "Some ''host1''" "initState []"]
  from t fresh good show ?thesis by blast
qed

text \<open>
  Claim C10, as stated, fails in one point: the first call, which fails, does apply a
  part of its configuration. It assigns \<^verbatim>\<open>serviceName\<close>, \<^verbatim>\<open>envName\<close> and \<^verbatim>\<open>hostName\<close>
  before it parses the level, so \<^verbatim>\<open>GetServiceName\<close> and \<^verbatim>\<open>GetEnvName\<close> return the values of
  the rejected configuration.
\<close>

theorem failed_init_counterexample:
  "fst (InitLoggerWithConfig (\<lambda>s. s) ((DefaultConfig ''svc'')\<lparr>LogLevel := ''VERBOSE''\<rparr>)
          (Some ''host1'') (initState [])) = Some ''invalid log level: VERBOSE''
   \<and> GetServiceName (initState []) = []
   \<and> GetServiceName (snd (InitLoggerWithConfig (\<lambda>s. s) ((DefaultConfig ''svc'')\<lparr>LogLevel := ''VERBOSE''\<rparr>)
          (Some ''host1'') (initState []))) = ''svc''
   \<and> GetEnvName (initState []) = []
   \<and> GetEnvName (snd (InitLoggerWithConfig (\<lambda>s. s) ((DefaultConfig ''svc'')\<lparr>LogLevel := ''VERBOSE''\<rparr>)
          (Some ''host1'') (initState []))) = ''dev''"
  by code_simp

text \<open>
  Claim C10, amended. If the first call of \<^verbatim>\<open>InitLoggerWithConfig\<close> has a configuration
  whose severity string is not recognized, it returns the error, sets the guard and
  assigns the service name, the environment name and the host name, and nothing else.
  Every later call, after any number \<open>cs\<close> of calls in between and whatever its
  configuration, returns nil and changes nothing: the registered \<^verbatim>\<open>Logger\<close> (so no default
  backend is installed), the global level, the time format, the backend logger and the
  effects are still those from before the first call.
\<close>

theorem failed_first_init_consumes_guard:
  assumes "\<not> onceInit s" and "\<not> recognized U (LogLevel c1)"
  shows "InitLoggerWithConfig U c1 h1 s =
           (Some (''invalid log level: '' @ LogLevel c1),
            s\<lparr>onceInit := True, serviceName := ServiceName c1, envName := Env c1,
              hostName := (case h1 of Some n \<Rightarrow> n | None \<Rightarrow> ''unknown'')\<rparr>)
       \<and> initCalls U cs (snd (InitLoggerWithConfig U c1 h1 s)) = snd (InitLoggerWithConfig U c1 h1 s)
       \<and> InitLoggerWithConfig U c2 h2 (initCalls U cs (snd (InitLoggerWithConfig U c1 h1 s))) =
           (None, snd (InitLoggerWithConfig U c1 h1 s))
       \<and> GetLogger (initCalls U cs (snd (InitLoggerWithConfig U c1 h1 s))) = GetLogger s
       \<and> zerolog_GlobalLevel (initCalls U cs (snd (InitLoggerWithConfig U c1 h1 s))) = zerolog_GlobalLevel s
       \<and> zerolog_TimeFieldFormat (initCalls U cs (snd (InitLoggerWithConfig U c1 h1 s))) = zerolog_TimeFieldFormat s
       \<and> globalLogger (initCalls U cs (snd (InitLoggerWithConfig U c1 h1 s))) = globalLogger s
       \<and> effects (initCalls U cs (snd (InitLoggerWithConfig U c1 h1 s))) = effects s"
proof -
  let ?s1 = "snd (InitLoggerWithConfig U c1 h1 s)"
  from assms(2) have bad: "snd (parseLevel U (LogLevel c1)) \<noteq> None"
    by (simp add: parseLevel_recognized)
  note first = Init_failed [OF assms(1) bad, of h1]
  have stay: "initCalls U cs ?s1 = ?s1"
    by (rule initCalls_done [OF Init_sets_once])
  have nxt: "InitLoggerWithConfig U c2 h2 ?s1 = (None, ?s1)"
    by (rule Init_done [OF Init_sets_once])
  have same: "GetLogger ?s1 = GetLogger s" "zerolog_GlobalLevel ?s1 = zerolog_GlobalLevel s"
    "zerolog_TimeFieldFormat ?s1 = zerolog_TimeFieldFormat s"
    "globalLogger ?s1 = globalLogger s" "effects ?s1 = effects s"
    by (simp_all add: first GetLogger_def)
  have nxt': "InitLoggerWithConfig U c2 h2 (initCalls U cs ?s1) = (None, ?s1)"
    unfolding stay by (rule nxt)
  have same': "GetLogger (initCalls U cs ?s1) = GetLogger s"
    "zerolog_GlobalLevel (initCalls U cs ?s1) = zerolog_GlobalLevel s"
    "zerolog_TimeFieldFormat (initCalls U cs ?s1) = zerolog_TimeFieldFormat s"
    "globalLogger (initCalls U cs ?s1) = globalLogger s"
    "effects (initCalls U cs ?s1) = effects s"
    unfolding stay by (rule same)+
  from first stay nxt' same' show ?thesis by blast
qed

theorem failed_first_init_consumes_guard_witness:
  "InitLoggerWithConfig (\<lambda>s. s) (DefaultConfig ''svc'') (Some ''host1'')
        (initCalls (\<lambda>s. s) [(DefaultConfig ''svc'', None)]
          (snd (InitLoggerWithConfig (\<lambda>s. s) ((DefaultConfig ''svc'')\<lparr>LogLevel := ''VERBOSE''\<rparr>)
                 (Some ''host1'') (initState [])))) =
       (None, snd (InitLoggerWithConfig (\<lambda>s. s) ((DefaultConfig ''svc'')\<lparr>LogLevel := ''VERBOSE''\<rparr>)
                 (Some ''host1'') (initState [])))
   \<and> GetLogger (initCalls (\<lambda>s. s) [(DefaultConfig ''svc'', None)]
          (snd (InitLoggerWithConfig (\<lambda>s. s) ((DefaultConfig ''svc'')\<lparr>LogLevel := ''VERBOSE''\<rparr>)
                 (Some ''host1'') (initState [])))) = GetLogger (initState [])"
proof -
  have fresh: "\<not> onceInit (initState [])"
    by (simp add: initState_def)
  have bad: "\<not> recognized (\<lambda>s. s) (LogLevel ((DefaultConfig ''svc'')\<lparr>LogLevel := ''VERBOSE''\<rparr>))"
    by code_simp
  note t = failed_first_init_consumes_guard [OF fresh bad, of "Some ''host1''"
        "[(DefaultConfig ''svc'', None)]" "DefaultConfig ''svc''" "Some ''host1''"]
  from t show ?thesis by blast
qed

end
